theory Spec2Isabelle
  imports Complex_Main "HOL-Library.Word"
begin

section \<open>The remote-write output: data model\<close>

text \<open>
  The embedding follows \<^verbatim>\<open>pkg/remotewrite/remotewrite.go\<close>. Values of the k6 and
  Prometheus libraries are records with the fields the code reads. Go's \<^verbatim>\<open>error\<close> is
  its message; \<^verbatim>\<open>[]byte\<close> is a list of 8-bit words. Sample values are only carried,
  never computed with.
\<close>

type_synonym error = string
type_synonym bytes = "8 word list"

text \<open>\<^verbatim>\<open>metrics.Metric\<close>, \<^verbatim>\<open>metrics.Sample\<close> and \<^verbatim>\<open>metrics.SampleContainer\<close> of k6.\<close>

datatype MetricType = Counter | Gauge | Trend | Rate

record Metric =
  Metric_Name :: string
  Metric_Type :: MetricType

record Sample =
  Sample_Metric :: Metric
  Sample_Tags :: "(string \<times> string) list"
  Sample_Time :: int
  Sample_Value :: real

datatype SampleContainer = SampleContainer (GetSamples: "Sample list")

text \<open>\<^verbatim>\<open>prompb.Label\<close>, \<^verbatim>\<open>prompb.Sample\<close>, \<^verbatim>\<open>prompb.TimeSeries\<close>, \<^verbatim>\<open>prompb.WriteRequest\<close>.\<close>

record Label =
  Label_Name :: string
  Label_Value :: string

record Point =
  Point_Value :: real
  Point_Timestamp :: int

record TimeSeries =
  Labels :: "Label list"
  Samples :: "Point list"

record WriteRequest =
  Timeseries :: "TimeSeries list"

text \<open>
  The configuration: \<^verbatim>\<open>flush\<close> reads \<^verbatim>\<open>FlushPeriod.Duration\<close> (nanoseconds); the whole
  value is handed to \<^verbatim>\<open>tagsToLabels\<close>.
\<close>

record Config =
  FlushPeriod :: int

text \<open>
  Modelled from the spec: the type \<^verbatim>\<open>Mapping\<close> is declared in another file of the
  package; the spec gives it as an enumerated strategy identifier, raw or
  stats-decomposition, selected once at startup.
\<close>

datatype Mapping = Raw | StatsDecomposition

text \<open>
  What the logger receives, one constructor per logging call of \<^verbatim>\<open>flush\<close> and
  \<^verbatim>\<open>convertToTimeSeries\<close>; the field \<^verbatim>\<open>nts\<close> is the first argument where the call
  attaches it.
\<close>

datatype LogEntry =
    LogError error                  \<comment> \<open>\<^verbatim>\<open>o.logger.Error(err)\<close>\<close>
  | DebugConverted nat              \<comment> \<open>"Converted samples to time series ..."\<close>
  | FatalMarshal error              \<comment> \<open>"Failed to marshal timeseries."\<close>
  | ErrorStore error                \<comment> \<open>"Failed to store timeseries."\<close>
  | WarnTookTooLong nat int int     \<comment> \<open>\<^verbatim>\<open>nts\<close>, elapsed, flush period\<close>
  | DebugTook nat int               \<comment> \<open>\<^verbatim>\<open>nts\<close>, elapsed\<close>

text \<open>
  The struct \<^verbatim>\<open>Output\<close>. \<^verbatim>\<open>client\<close> is the list of requests handed to
  \<^verbatim>\<open>client.Store\<close> so far, \<^verbatim>\<open>SampleBuffer\<close> the buffered containers, \<^verbatim>\<open>logger\<close> the
  entries logged so far. The type \<open>'ms\<close> is \<^verbatim>\<open>metricsStorage\<close>. The periodic
  flusher is touched by \<^verbatim>\<open>Start\<close> and \<^verbatim>\<open>Stop\<close> only.
\<close>

record 'ms Output =
  config :: Config
  client :: "bytes list"
  metrics :: 'ms
  mapping :: Mapping
  SampleBuffer :: "SampleContainer list"
  logger :: "LogEntry list"

text \<open>
  The functions that \<^verbatim>\<open>flush\<close> and \<^verbatim>\<open>convertToTimeSeries\<close> call and that
  \<^verbatim>\<open>remotewrite.go\<close> does not define, taken as parameters with the shape of their Go
  signatures:
  \<^item> \<^verbatim>\<open>tagsToLabels(tags, config) ([]prompb.Label, error)\<close>: both results, as Go returns
    them;
  \<^item> \<^verbatim>\<open>(*metricsStorage).transform(mapping, sample, labels) ([]prompb.TimeSeries, error)\<close>:
    the series are read only when the error is nil; the storage may change;
  \<^item> \<^verbatim>\<open>proto.Marshal\<close>; \<^verbatim>\<open>snappy.Encode\<close>, which can panic (\<open>None\<close>);
    \<^verbatim>\<open>client.Store\<close>, which answers with an error or nil.
\<close>

record 'ms env =
  tagsToLabels :: "(string \<times> string) list \<Rightarrow> Config \<Rightarrow> Label list \<times> error option"
  transform :: "Mapping \<Rightarrow> 'ms \<Rightarrow> Sample \<Rightarrow> Label list \<Rightarrow> (error + TimeSeries list) \<times> 'ms"
  Marshal :: "WriteRequest \<Rightarrow> error + bytes"
  snappyEncode :: "bytes \<Rightarrow> bytes option"
  Store :: "bytes \<Rightarrow> error option"

section \<open>convertToTimeSeries\<close>

text \<open>
  The locals of \<^verbatim>\<open>convertToTimeSeries\<close> that its loops update: the accumulated
  series, the map \<^verbatim>\<open>seen\<close> (a missing key reads as false), and the two parts of the
  receiver that the calls in the loop body change.
\<close>

record 'ms conv =
  promTimeSeries :: "TimeSeries list"
  seen :: "string \<Rightarrow> bool"
  conv_metrics :: 'ms
  conv_logger :: "LogEntry list"

text \<open>The body of the inner loop after the \<^verbatim>\<open>seen\<close> check (lines 148 to 161).\<close>

definition convertBody :: "'ms env \<Rightarrow> 'ms Output \<Rightarrow> 'ms conv \<Rightarrow> Sample \<Rightarrow> 'ms conv" where
  "convertBody env out st sample =
     (let (labels, err) = tagsToLabels env (Sample_Tags sample) (config out);
          log1 = (case err of None \<Rightarrow> conv_logger st
                  | Some e \<Rightarrow> conv_logger st @ [LogError e]);
          (res, ms') = transform env (mapping out) (conv_metrics st) sample labels;
          st' = (case res of
                   Inl e \<Rightarrow> st\<lparr>conv_metrics := ms', conv_logger := log1 @ [LogError e]\<rparr>
                 | Inr newts \<Rightarrow> st\<lparr>promTimeSeries := promTimeSeries st @ newts,
                                  conv_metrics := ms', conv_logger := log1\<rparr>)
      in st'\<lparr>seen := (seen st')(Metric_Name (Sample_Metric sample) := True)\<rparr>)"

text \<open>One iteration of the inner loop: a sample of a seen metric name is skipped.\<close>

definition convertSample :: "'ms env \<Rightarrow> 'ms Output \<Rightarrow> 'ms conv \<Rightarrow> Sample \<Rightarrow> 'ms conv" where
  "convertSample env out st sample =
     (if seen st (Metric_Name (Sample_Metric sample)) then st
      else convertBody env out st sample)"

text \<open>The inner loop, over the samples of one container.\<close>

fun convertSamples :: "'ms env \<Rightarrow> 'ms Output \<Rightarrow> 'ms conv \<Rightarrow> Sample list \<Rightarrow> 'ms conv" where
  "convertSamples env out st [] = st"
| "convertSamples env out st (sample # samples) =
     convertSamples env out (convertSample env out st sample) samples"

text \<open>
  The outer loop, over the containers, with the \<^verbatim>\<open>break\<close> of line 166 after a
  container's samples. \<open>tooLong\<close> is the package-level variable \<^verbatim>\<open>flushTooLong\<close>.
\<close>

fun convertContainers ::
  "'ms env \<Rightarrow> 'ms Output \<Rightarrow> bool \<Rightarrow> 'ms conv \<Rightarrow> SampleContainer list \<Rightarrow> 'ms conv" where
  "convertContainers env out tooLong st [] = st"
| "convertContainers env out tooLong st (samplesContainer # rest) =
     (let st' = convertSamples env out st (GetSamples samplesContainer)
      in if tooLong \<and> length (promTimeSeries st') > 150000 then st'
         else convertContainers env out tooLong st' rest)"

definition conv_init :: "'ms Output \<Rightarrow> 'ms conv" where
  "conv_init out =
     \<lparr>promTimeSeries = [], seen = (\<lambda>_. False),
      conv_metrics = metrics out, conv_logger = logger out\<rparr>"

definition conv_result :: "'ms Output \<Rightarrow> 'ms conv \<Rightarrow> TimeSeries list \<times> 'ms Output" where
  "conv_result out st =
     (promTimeSeries st, out\<lparr>metrics := conv_metrics st, logger := conv_logger st\<rparr>)"

text \<open>
  \<^verbatim>\<open>convertToTimeSeries\<close>: the returned slice, and the receiver after the call. The
  first argument after the environment is the value of \<^verbatim>\<open>flushTooLong\<close> during the call.
\<close>

definition convertToTimeSeries ::
  "'ms env \<Rightarrow> bool \<Rightarrow> 'ms Output \<Rightarrow> SampleContainer list \<Rightarrow> TimeSeries list \<times> 'ms Output" where
  "convertToTimeSeries env tooLong out samplesContainers =
     conv_result out (convertContainers env out tooLong (conv_init out) samplesContainers)"

section \<open>flush\<close>

text \<open>
  How a call of \<^verbatim>\<open>flush\<close> ends: it returns, it panics (in \<^verbatim>\<open>snappy.Encode\<close>; the
  deferred function has run), or the process exits (\<^verbatim>\<open>Fatal\<close> of the logger calls
  \<^verbatim>\<open>os.Exit\<close>, and no deferred function runs). The state is the package-level
  \<^verbatim>\<open>flushTooLong\<close> with the receiver.
\<close>

datatype 'a outcome = Returned 'a | Panicked 'a | Exited 'a

text \<open>
  \<^verbatim>\<open>GetBufferedSamples\<close> and \<^verbatim>\<open>AddMetricSamples\<close> of the embedded k6
  \<^verbatim>\<open>output.SampleBuffer\<close>, as the spec describes the buffer: draining removes and returns
  everything buffered since the last drain, appending adds at the end.
\<close>

definition GetBufferedSamples :: "'ms Output \<Rightarrow> SampleContainer list \<times> 'ms Output" where
  "GetBufferedSamples out = (SampleBuffer out, out\<lparr>SampleBuffer := []\<rparr>)"

definition AddMetricSamples :: "SampleContainer list \<Rightarrow> 'ms Output \<Rightarrow> 'ms Output" where
  "AddMetricSamples cs out = out\<lparr>SampleBuffer := SampleBuffer out @ cs\<rparr>"

text \<open>
  The deferred function of \<^verbatim>\<open>flush\<close> (lines 90 to 102); \<open>d\<close> is \<^verbatim>\<open>time.Since(start)\<close>
  when it runs.
\<close>

definition flushDeferred :: "int \<Rightarrow> nat \<Rightarrow> bool \<times> 'ms Output \<Rightarrow> bool \<times> 'ms Output" where
  "flushDeferred d nts = (\<lambda>(tooLong, out).
     if d > FlushPeriod (config out)
     then (True, out\<lparr>logger := logger out @ [WarnTookTooLong nts d (FlushPeriod (config out))]\<rparr>)
     else (False, out\<lparr>logger := logger out @ [DebugTook nts d]\<rparr>))"

definition flush ::
  "'ms env \<Rightarrow> int \<Rightarrow> bool \<times> 'ms Output \<Rightarrow> (bool \<times> 'ms Output) outcome" where
  "flush env d = (\<lambda>(tooLong, out).
     let (samplesContainers, out1) = GetBufferedSamples out;
         (promTimeSeries, out2) = convertToTimeSeries env tooLong out1 samplesContainers;
         nts = length promTimeSeries;
         out3 = out2\<lparr>logger := logger out2 @ [DebugConverted nts]\<rparr>;
         req = \<lparr>Timeseries = promTimeSeries\<rparr>
     in case Marshal env req of
          Inl err \<Rightarrow> Exited (tooLong, out3\<lparr>logger := logger out3 @ [FatalMarshal err]\<rparr>)
        | Inr buf \<Rightarrow>
            (case snappyEncode env buf of
               None \<Rightarrow> Panicked (flushDeferred d nts (tooLong, out3))
             | Some encoded \<Rightarrow>
                 (let out4 = out3\<lparr>client := client out3 @ [encoded]\<rparr>
                  in case Store env encoded of
                       Some err \<Rightarrow>
                         Returned (flushDeferred d nts
                           (tooLong, out4\<lparr>logger := logger out4 @ [ErrorStore err]\<rparr>))
                     | None \<Rightarrow> Returned (flushDeferred d nts (tooLong, out4)))))"

text \<open>
  The slice \<^verbatim>\<open>promTimeSeries\<close> of line 112, the batch of the cycle, and the receiver
  as the conversion leaves it.
\<close>

definition cycleBatch :: "'ms env \<Rightarrow> bool \<Rightarrow> 'ms Output \<Rightarrow> TimeSeries list" where
  "cycleBatch env tooLong out =
     fst (convertToTimeSeries env tooLong (snd (GetBufferedSamples out))
            (fst (GetBufferedSamples out)))"

definition cycleConverted :: "'ms env \<Rightarrow> bool \<Rightarrow> 'ms Output \<Rightarrow> 'ms Output" where
  "cycleConverted env tooLong out =
     snd (convertToTimeSeries env tooLong (snd (GetBufferedSamples out))
            (fst (GetBufferedSamples out)))"

section \<open>Several instances in one process\<close>

text \<open>
  \<^verbatim>\<open>flushTooLong\<close> is a variable of the package, so a process has one, next to any
  number of \<^verbatim>\<open>Output\<close> values. A method call names its receiver by its index.
\<close>

record 'ms Process =
  flushTooLong :: bool
  outputs :: "nat \<Rightarrow> 'ms Output"

definition flushOf :: "'ms env \<Rightarrow> int \<Rightarrow> nat \<Rightarrow> 'ms Process \<Rightarrow> 'ms Process outcome" where
  "flushOf env d i p =
     (let put = (\<lambda>(tooLong, out). \<lparr>flushTooLong = tooLong, outputs = (outputs p)(i := out)\<rparr>)
      in case flush env d (flushTooLong p, outputs p i) of
           Returned s \<Rightarrow> Returned (put s)
         | Panicked s \<Rightarrow> Panicked (put s)
         | Exited s \<Rightarrow> Exited (put s))"

definition convertOf ::
  "'ms env \<Rightarrow> nat \<Rightarrow> 'ms Process \<Rightarrow> SampleContainer list \<Rightarrow> TimeSeries list \<times> 'ms Process" where
  "convertOf env i p samplesContainers =
     (let (promTimeSeries, out) =
            convertToTimeSeries env (flushTooLong p) (outputs p i) samplesContainers
      in (promTimeSeries, p\<lparr>outputs := (outputs p)(i := out)\<rparr>))"

section \<open>Notions used to state the properties\<close>

text \<open>
  The samples of a list that are the first of their metric name, the names in
  \<open>names\<close> counting as met before.
\<close>

fun firstSeen :: "string list \<Rightarrow> Sample list \<Rightarrow> Sample list" where
  "firstSeen names [] = []"
| "firstSeen names (s # ss) =
     (if Metric_Name (Sample_Metric s) \<in> set names then firstSeen names ss
      else s # firstSeen (Metric_Name (Sample_Metric s) # names) ss)"

text \<open>A container without the samples of one metric name.\<close>

definition withoutMetric :: "string \<Rightarrow> SampleContainer \<Rightarrow> SampleContainer" where
  "withoutMetric n c =
     SampleContainer (filter (\<lambda>s. Metric_Name (Sample_Metric s) \<noteq> n) (GetSamples c))"

text \<open>The two entries that the deferred function of \<^verbatim>\<open>flush\<close> logs.\<close>

fun durationEntry :: "LogEntry \<Rightarrow> bool" where
  "durationEntry (WarnTookTooLong nts d p) = True"
| "durationEntry (DebugTook nts d) = True"
| "durationEntry e = False"

text \<open>
  Modelled from the spec: \<^verbatim>\<open>tagsToLabels\<close> is defined in another file of the package.
  The spec has the label builder fail with a \<^verbatim>\<open>LabelConversionError\<close> when a tag value
  cannot be represented, the sample's labels being empty then: the call returns no
  labels together with its error.
\<close>

definition labelConversionFails :: "'ms env \<Rightarrow> 'ms Output \<Rightarrow> Sample \<Rightarrow> error \<Rightarrow> bool" where
  "labelConversionFails env out sample e =
     (tagsToLabels env (Sample_Tags sample) (config out) = ([], Some e))"

text \<open>
  Modelled from the spec: \<^verbatim>\<open>transform\<close> of \<^verbatim>\<open>metricsStorage\<close> is defined in another
  file of the package. The spec's raw variant makes of each sample exactly one time
  series with exactly one point, the sample's value and timestamp, and uses no
  aggregation state.
\<close>

definition rawTransform ::
  "Mapping \<Rightarrow> 'ms \<Rightarrow> Sample \<Rightarrow> Label list \<Rightarrow> (error + TimeSeries list) \<times> 'ms" where
  "rawTransform m ms sample labels =
     (Inr [\<lparr>Labels = labels,
            Samples = [\<lparr>Point_Value = Sample_Value sample,
                        Point_Timestamp = Sample_Time sample\<rparr>]\<rparr>], ms)"

text \<open>
  Modelled from the spec: what the spec's variants of \<^verbatim>\<open>transform\<close> share as to
  timestamps. A series that a call emits holds no two points of one timestamp (the raw
  variant emits a single point; a derived series is computed from the state at that
  call).
\<close>

definition timestampsDistinct :: "TimeSeries \<Rightarrow> bool" where
  "timestampsDistinct ts = distinct (map Point_Timestamp (Samples ts))"

definition transformEmitsDistinct :: "'ms env \<Rightarrow> bool" where
  "transformEmitsDistinct env =
     (\<forall>m ms sample labels newts ms'.
        transform env m ms sample labels = (Inr newts, ms') \<longrightarrow>
        list_all timestampsDistinct newts)"

section \<open>Example values\<close>

text \<open>
  Concrete environments, instances and containers on which the properties are run.
  \<open>rawEnv\<close> has the spec's raw mapping, a label builder that takes every tag and never
  fails, and a transport that accepts every request; the other environments change one
  function of it: a transform that emits 150001 series per sample, a transform that
  fails on trend metrics, a label builder that fails on an empty tag value, a transport
  that refuses, a \<^verbatim>\<open>Marshal\<close> that fails. The instances have a flush period of 1000.
\<close>

definition plainLabels :: "(string \<times> string) list \<Rightarrow> Config \<Rightarrow> Label list \<times> error option" where
  "plainLabels tags cfg = (map (\<lambda>(k, v). \<lparr>Label_Name = k, Label_Value = v\<rparr>) tags, None)"

definition rawEnv :: "unit env" where
  "rawEnv =
     \<lparr>tagsToLabels = plainLabels, transform = rawTransform,
      Marshal = (\<lambda>req. Inr [of_nat (length (Timeseries req))]),
      snappyEncode = Some, Store = (\<lambda>encoded. None)\<rparr>"

definition counterSample :: "string \<Rightarrow> (string \<times> string) list \<Rightarrow> int \<Rightarrow> real \<Rightarrow> Sample" where
  "counterSample n tags t v =
     \<lparr>Sample_Metric = \<lparr>Metric_Name = n, Metric_Type = Counter\<rparr>,
      Sample_Tags = tags, Sample_Time = t, Sample_Value = v\<rparr>"

definition idleOutput :: "unit Output" where
  "idleOutput =
     \<lparr>config = \<lparr>FlushPeriod = 1000\<rparr>, client = [], metrics = (), mapping = Raw,
      SampleBuffer = [], logger = []\<rparr>"

definition httpReqs :: "SampleContainer list" where
  "httpReqs =
     [SampleContainer
        [counterSample ''http_reqs'' [(''method'', ''GET'')] 7 1,
         counterSample ''http_reqs'' [(''method'', ''POST'')] 7 2],
      SampleContainer
        [counterSample ''http_reqs'' [(''method'', ''PUT'')] 7 3]]"

definition bulkTransform ::
  "Mapping \<Rightarrow> unit \<Rightarrow> Sample \<Rightarrow> Label list \<Rightarrow> (error + TimeSeries list) \<times> unit" where
  "bulkTransform m ms sample labels =
     (Inr (replicate 150001
        \<lparr>Labels = labels,
         Samples = [\<lparr>Point_Value = Sample_Value sample,
                     Point_Timestamp = Sample_Time sample\<rparr>]\<rparr>), ms)"

definition bulkEnv :: "unit env" where
  "bulkEnv = rawEnv\<lparr>transform := bulkTransform\<rparr>"

definition busyOutput :: "unit Output" where
  "busyOutput = idleOutput\<lparr>SampleBuffer := httpReqs\<rparr>"

definition twoMetrics :: "SampleContainer list" where
  "twoMetrics =
     [SampleContainer [counterSample ''http_reqs'' [] 7 1],
      SampleContainer [counterSample ''vus'' [] 7 5]]"

definition downEnv :: "unit env" where
  "downEnv = rawEnv\<lparr>Store := (\<lambda>encoded. Some ''server returned HTTP status 503'')\<rparr>"

definition unmarshallableEnv :: "unit env" where
  "unmarshallableEnv = rawEnv\<lparr>Marshal := (\<lambda>req. Inl ''proto: invalid UTF-8 string'')\<rparr>"

definition twoInstances :: "unit Process" where
  "twoInstances = \<lparr>flushTooLong = False, outputs = (\<lambda>i. idleOutput)\<rparr>"

definition strictTransform ::
  "Mapping \<Rightarrow> unit \<Rightarrow> Sample \<Rightarrow> Label list \<Rightarrow> (error + TimeSeries list) \<times> unit" where
  "strictTransform m ms sample labels =
     (if Metric_Type (Sample_Metric sample) = Trend
      then (Inl ''cannot map a trend metric'', ms)
      else rawTransform m ms sample labels)"

definition strictEnv :: "unit env" where
  "strictEnv = rawEnv\<lparr>transform := strictTransform\<rparr>"

definition checkedLabels ::
  "(string \<times> string) list \<Rightarrow> Config \<Rightarrow> Label list \<times> error option" where
  "checkedLabels tags cfg =
     (if list_ex (\<lambda>(k, v). v = []) tags then ([], Some ''tag value cannot be represented'')
      else plainLabels tags cfg)"

definition checkedEnv :: "unit env" where
  "checkedEnv = rawEnv\<lparr>tagsToLabels := checkedLabels\<rparr>"

definition trendSample :: "string \<Rightarrow> (string \<times> string) list \<Rightarrow> int \<Rightarrow> real \<Rightarrow> Sample" where
  "trendSample n tags t v =
     \<lparr>Sample_Metric = \<lparr>Metric_Name = n, Metric_Type = Trend\<rparr>,
      Sample_Tags = tags, Sample_Time = t, Sample_Value = v\<rparr>"

definition mixedContainers :: "SampleContainer list" where
  "mixedContainers =
     [SampleContainer
        [trendSample ''req_duration'' [] 7 12,
         counterSample ''http_reqs'' [(''method'', ''GET'')] 7 1]]"

definition badTagContainers :: "SampleContainer list" where
  "badTagContainers =
     [SampleContainer
        [counterSample ''http_reqs'' [(''method'', [])] 7 1,
         counterSample ''vus'' [(''scenario'', ''default'')] 7 5]]"

definition sameNameContainers :: "SampleContainer list" where
  "sameNameContainers =
     [SampleContainer
        [trendSample ''req_duration'' [] 7 12,
         counterSample ''req_duration'' [] 8 13],
      SampleContainer
        [counterSample ''req_duration'' [] 9 14]]"

section \<open>The conversion loops\<close>

lemma seen_convertBody:
  "seen (convertBody env out st s) = (seen st)(Metric_Name (Sample_Metric s) := True)"
  by (simp add: convertBody_def Let_def split: prod.splits sum.splits option.splits)

lemma convertSamples_append:
  "convertSamples env out st (xs @ ys) = convertSamples env out (convertSamples env out st xs) ys"
  by (induction xs arbitrary: st) simp_all

lemma convertSamples_firstSeen:
  "(\<And>n. seen st n \<longleftrightarrow> n \<in> set names) \<Longrightarrow>
   convertSamples env out st ss = foldl (convertBody env out) st (firstSeen names ss)"
proof (induction ss arbitrary: st names)
  case Nil
  show ?case by simp
next
  case (Cons s ss)
  let ?n = "Metric_Name (Sample_Metric s)"
  show ?case
  proof (cases "?n \<in> set names")
    case True
    then have "convertSample env out st s = st"
      using Cons.prems by (simp add: convertSample_def)
    with True Cons show ?thesis by simp
  next
    case False
    then have step: "convertSample env out st s = convertBody env out st s"
      using Cons.prems by (simp add: convertSample_def)
    have "\<And>n. seen (convertBody env out st s) n \<longleftrightarrow> n \<in> set (?n # names)"
      using Cons.prems by (simp add: seen_convertBody)
    from Cons.IH [OF this] False step show ?thesis by simp
  qed
qed

lemma convertContainers_False:
  "convertContainers env out False st cs =
   convertSamples env out st (concat (map GetSamples cs))"
  by (induction cs arbitrary: st) (simp_all add: convertSamples_append)

lemma convertContainers_prefix:
  "\<exists>k\<le>length cs.
     convertContainers env out tooLong st cs =
       convertSamples env out st (concat (map GetSamples (take k cs))) \<and>
     (if tooLong
      then (k = length cs \<or>
              150000 < length (promTimeSeries (convertContainers env out tooLong st cs))) \<and>
           (\<forall>j. 0 < j \<and> j < k \<longrightarrow>
              length (promTimeSeries
                (convertSamples env out st (concat (map GetSamples (take j cs))))) \<le> 150000)
      else k = length cs)"
proof (induction cs arbitrary: st)
  case Nil
  show ?case by simp
next
  case (Cons c cs)
  let ?st' = "convertSamples env out st (GetSamples c)"
  show ?case
  proof (cases "tooLong \<and> 150000 < length (promTimeSeries ?st')")
    case True
    then show ?thesis
      by (intro exI [of _ 1]) simp
  next
    case False
    from Cons.IH [of ?st'] obtain k where k: "k \<le> length cs"
      "convertContainers env out tooLong ?st' cs =
         convertSamples env out ?st' (concat (map GetSamples (take k cs)))"
      "(if tooLong
        then (k = length cs \<or>
                150000 < length (promTimeSeries (convertContainers env out tooLong ?st' cs))) \<and>
             (\<forall>j. 0 < j \<and> j < k \<longrightarrow>
                length (promTimeSeries
                  (convertSamples env out ?st' (concat (map GetSamples (take j cs))))) \<le> 150000)
        else k = length cs)"
      by blast
    have unfold: "convertContainers env out tooLong st (c # cs) =
        convertContainers env out tooLong ?st' cs"
      using False by (auto simp: Let_def)
    have small: "\<And>j. tooLong \<Longrightarrow> 0 < j \<Longrightarrow> j < Suc k \<Longrightarrow>
        length (promTimeSeries
          (convertSamples env out st (concat (map GetSamples (take j (c # cs)))))) \<le> 150000"
    proof -
      fix j assume tl: tooLong and j: "0 < j" "j < Suc k"
      then obtain i where i: "j = Suc i" by (cases j) auto
      show "length (promTimeSeries
          (convertSamples env out st (concat (map GetSamples (take j (c # cs)))))) \<le> 150000"
      proof (cases "i = 0")
        case True
        with i tl False show ?thesis by simp
      next
        case nz: False
        with i j k(3) tl show ?thesis
          by (simp add: convertSamples_append)
      qed
    qed
    have eq: "convertContainers env out tooLong st (c # cs) =
        convertSamples env out st (concat (map GetSamples (take (Suc k) (c # cs))))"
      using k(2) unfold by (simp add: convertSamples_append)
    show ?thesis
    proof (cases tooLong)
      case True
      with k(3) unfold
      have "Suc k = length (c # cs) \<or>
          150000 < length (promTimeSeries (convertContainers env out tooLong st (c # cs)))"
        by auto
      with True k(1) eq small show ?thesis
        by (intro exI [of _ "Suc k"]) simp
    next
      case False
      with k eq show ?thesis
        by (intro exI [of _ "Suc k"]) simp
    qed
  qed
qed

lemma firstSeen_snoc:
  "firstSeen names (xs @ [s]) =
   firstSeen names xs @
     (if Metric_Name (Sample_Metric s) \<in> set names \<union> set (map (\<lambda>x. Metric_Name (Sample_Metric x)) xs)
      then [] else [s])"
  by (induction xs arbitrary: names) auto

lemma firstSeen_names:
  "set (map (\<lambda>x. Metric_Name (Sample_Metric x)) (firstSeen names xs)) =
   set (map (\<lambda>x. Metric_Name (Sample_Metric x)) xs) - set names"
  by (induction xs arbitrary: names) auto

lemma firstSeen_distinct:
  "distinct (map (\<lambda>x. Metric_Name (Sample_Metric x)) (firstSeen names xs))"
proof (induction xs arbitrary: names)
  case Nil
  show ?case by simp
next
  case (Cons x xs)
  have "Metric_Name (Sample_Metric x) \<notin>
      set (map (\<lambda>x. Metric_Name (Sample_Metric x))
        (firstSeen (Metric_Name (Sample_Metric x) # names) xs))"
    unfolding firstSeen_names by simp
  with Cons show ?case by simp
qed

lemma convertToTimeSeries_prefix:
  "\<exists>k\<le>length cs.
     convertToTimeSeries env tooLong out cs =
       conv_result out (foldl (convertBody env out) (conv_init out)
         (firstSeen [] (concat (map GetSamples (take k cs))))) \<and>
     (tooLong \<or> k = length cs)"
proof -
  from convertContainers_prefix [of cs env out tooLong "conv_init out"]
  obtain k where k: "k \<le> length cs"
    "convertContainers env out tooLong (conv_init out) cs =
       convertSamples env out (conv_init out) (concat (map GetSamples (take k cs)))"
    "tooLong \<or> k = length cs"
    by (cases tooLong) auto
  have "convertSamples env out (conv_init out) (concat (map GetSamples (take k cs))) =
      foldl (convertBody env out) (conv_init out)
        (firstSeen [] (concat (map GetSamples (take k cs))))"
    by (rule convertSamples_firstSeen) (simp add: conv_init_def)
  with k show ?thesis
    by (auto simp: convertToTimeSeries_def)
qed

text \<open>What the conversion leaves alone, and how the log grows.\<close>

lemma convertBody_logger:
  "\<exists>new. conv_logger (convertBody env out st s) = conv_logger st @ new \<and>
     filter durationEntry new = []"
  by (auto simp: convertBody_def Let_def split: prod.splits sum.splits option.splits)

lemma convertSample_logger:
  "\<exists>new. conv_logger (convertSample env out st s) = conv_logger st @ new \<and>
     filter durationEntry new = []"
  using convertBody_logger [of env out st s] by (simp add: convertSample_def)

lemma convertSamples_logger:
  "\<exists>new. conv_logger (convertSamples env out st ss) = conv_logger st @ new \<and>
     filter durationEntry new = []"
proof (induction ss arbitrary: st)
  case Nil
  show ?case by simp
next
  case (Cons s ss)
  from convertSample_logger [of env out st s] obtain n1 where
    n1: "conv_logger (convertSample env out st s) = conv_logger st @ n1"
      "filter durationEntry n1 = []" by blast
  from Cons [of "convertSample env out st s"] obtain n2 where
    n2: "conv_logger (convertSamples env out (convertSample env out st s) ss) =
           conv_logger (convertSample env out st s) @ n2"
      "filter durationEntry n2 = []" by blast
  from n1 n2 show ?case
    by (intro exI [of _ "n1 @ n2"]) simp
qed

lemma convertContainers_logger:
  "\<exists>new. conv_logger (convertContainers env out tooLong st cs) = conv_logger st @ new \<and>
     filter durationEntry new = []"
proof -
  from convertContainers_prefix [of cs env out tooLong st] obtain k where
    "convertContainers env out tooLong st cs =
       convertSamples env out st (concat (map GetSamples (take k cs)))" by blast
  then show ?thesis
    using convertSamples_logger [of env out st "concat (map GetSamples (take k cs))"] by simp
qed

lemma cycleConverted_frame:
  "config (cycleConverted env tooLong out) = config out"
  "client (cycleConverted env tooLong out) = client out"
  "mapping (cycleConverted env tooLong out) = mapping out"
  "SampleBuffer (cycleConverted env tooLong out) = []"
  by (simp_all add: cycleConverted_def convertToTimeSeries_def conv_result_def
      GetBufferedSamples_def)

lemma cycleConverted_logger:
  "\<exists>new. logger (cycleConverted env tooLong out) = logger out @ new \<and>
     filter durationEntry new = []"
  using convertContainers_logger
    [of env "out\<lparr>SampleBuffer := []\<rparr>" tooLong "conv_init (out\<lparr>SampleBuffer := []\<rparr>)"
      "SampleBuffer out"]
  by (simp add: cycleConverted_def convertToTimeSeries_def conv_result_def
      GetBufferedSamples_def conv_init_def)

text \<open>The four ways through \<^verbatim>\<open>flush\<close>.\<close>

lemma flush_marshal_fails:
  assumes "Marshal env \<lparr>Timeseries = cycleBatch env tooLong out\<rparr> = Inl err"
  shows "flush env d (tooLong, out) =
    Exited (tooLong, (cycleConverted env tooLong out)
      \<lparr>logger := logger (cycleConverted env tooLong out) @
         [DebugConverted (length (cycleBatch env tooLong out)), FatalMarshal err]\<rparr>)"
  using assms unfolding cycleBatch_def cycleConverted_def
  by (cases "snd (convertToTimeSeries env tooLong (snd (GetBufferedSamples out))
        (fst (GetBufferedSamples out)))")
    (simp add: flush_def Let_def case_prod_beta)

lemma flush_encode_panics:
  assumes "Marshal env \<lparr>Timeseries = cycleBatch env tooLong out\<rparr> = Inr buf"
    and "snappyEncode env buf = None"
  shows "flush env d (tooLong, out) =
    Panicked (flushDeferred d (length (cycleBatch env tooLong out))
      (tooLong, (cycleConverted env tooLong out)
        \<lparr>logger := logger (cycleConverted env tooLong out) @
           [DebugConverted (length (cycleBatch env tooLong out))]\<rparr>))"
  using assms unfolding cycleBatch_def cycleConverted_def
  by (cases "snd (convertToTimeSeries env tooLong (snd (GetBufferedSamples out))
        (fst (GetBufferedSamples out)))")
    (simp add: flush_def Let_def case_prod_beta)

lemma flush_store_fails:
  assumes "Marshal env \<lparr>Timeseries = cycleBatch env tooLong out\<rparr> = Inr buf"
    and "snappyEncode env buf = Some encoded"
    and "Store env encoded = Some err"
  shows "flush env d (tooLong, out) =
    Returned (flushDeferred d (length (cycleBatch env tooLong out))
      (tooLong, (cycleConverted env tooLong out)
        \<lparr>client := client out @ [encoded],
         logger := logger (cycleConverted env tooLong out) @
           [DebugConverted (length (cycleBatch env tooLong out)), ErrorStore err]\<rparr>))"
  using assms cycleConverted_frame(2) [of env tooLong out]
  unfolding cycleBatch_def cycleConverted_def
  by (cases "snd (convertToTimeSeries env tooLong (snd (GetBufferedSamples out))
        (fst (GetBufferedSamples out)))")
    (simp add: flush_def Let_def case_prod_beta)

lemma flush_store_succeeds:
  assumes "Marshal env \<lparr>Timeseries = cycleBatch env tooLong out\<rparr> = Inr buf"
    and "snappyEncode env buf = Some encoded"
    and "Store env encoded = None"
  shows "flush env d (tooLong, out) =
    Returned (flushDeferred d (length (cycleBatch env tooLong out))
      (tooLong, (cycleConverted env tooLong out)
        \<lparr>client := client out @ [encoded],
         logger := logger (cycleConverted env tooLong out) @
           [DebugConverted (length (cycleBatch env tooLong out))]\<rparr>))"
  using assms cycleConverted_frame(2) [of env tooLong out]
  unfolding cycleBatch_def cycleConverted_def
  by (cases "snd (convertToTimeSeries env tooLong (snd (GetBufferedSamples out))
        (fst (GetBufferedSamples out)))")
    (simp add: flush_def Let_def case_prod_beta)

lemma flushDeferred_eq:
  "flushDeferred d nts (tooLong, out) =
     (FlushPeriod (config out) < d,
      out\<lparr>logger := logger out @
        [if FlushPeriod (config out) < d
         then WarnTookTooLong nts d (FlushPeriod (config out)) else DebugTook nts d]\<rparr>)"
  by (simp add: flushDeferred_def)

lemma convertToTimeSeries_clear:
  "convertToTimeSeries env False out cs =
     conv_result out (convertSamples env out (conv_init out) (concat (map GetSamples cs)))"
  by (simp add: convertToTimeSeries_def convertContainers_False)

lemma flush_Returned:
  assumes "flush env d (tooLong, out) = Returned (tooLong', out')"
  shows "tooLong' = (FlushPeriod (config out) < d) \<and>
    (\<exists>buf encoded.
       Marshal env \<lparr>Timeseries = cycleBatch env tooLong out\<rparr> = Inr buf \<and>
       snappyEncode env buf = Some encoded \<and>
       client out' = client out @ [encoded])"
proof (cases "Marshal env \<lparr>Timeseries = cycleBatch env tooLong out\<rparr>")
  case (Inl err)
  from flush_marshal_fails [OF this, of d] assms show ?thesis by simp
next
  case (Inr buf)
  show ?thesis
  proof (cases "snappyEncode env buf")
    case None
    from flush_encode_panics [OF Inr this, of d] assms show ?thesis by simp
  next
    case (Some encoded)
    show ?thesis
    proof (cases "Store env encoded")
      case None
      from flush_store_succeeds [OF Inr Some this, of d] assms Inr Some
        cycleConverted_frame(1) [of env tooLong out]
      show ?thesis by (auto simp: flushDeferred_eq)
    next
      case (Some err)
      from flush_store_fails [OF Inr \<open>snappyEncode env buf = Some encoded\<close> this, of d]
        assms Inr \<open>snappyEncode env buf = Some encoded\<close>
        cycleConverted_frame(1) [of env tooLong out]
      show ?thesis by (auto simp: flushDeferred_eq)
    qed
  qed
qed

lemmas example_defs =
  rawEnv_def plainLabels_def rawTransform_def counterSample_def idleOutput_def httpReqs_def
  busyOutput_def bulkEnv_def bulkTransform_def twoMetrics_def

lemmas run_defs =
  convertToTimeSeries_def conv_init_def conv_result_def convertSample_def convertBody_def
  flush_def flushDeferred_def GetBufferedSamples_def Let_def

text \<open>The conversion does not look at the transport.\<close>

lemma convertBody_Store:
  "convertBody (env\<lparr>Store := f\<rparr>) out st s = convertBody env out st s"
  by (simp add: convertBody_def)

lemma convertSamples_Store:
  "convertSamples (env\<lparr>Store := f\<rparr>) out st ss = convertSamples env out st ss"
  by (induction ss arbitrary: st) (simp_all add: convertSample_def convertBody_Store)

lemma convertContainers_Store:
  "convertContainers (env\<lparr>Store := f\<rparr>) out tooLong st cs =
   convertContainers env out tooLong st cs"
  by (induction cs arbitrary: st) (simp_all add: convertSamples_Store Let_def)

lemma cycle_Store:
  "cycleBatch (env\<lparr>Store := f\<rparr>) tooLong out = cycleBatch env tooLong out"
  "cycleConverted (env\<lparr>Store := f\<rparr>) tooLong out = cycleConverted env tooLong out"
  by (simp_all add: cycleBatch_def cycleConverted_def convertToTimeSeries_def
      convertContainers_Store)

lemma cycleBatch_empty: "SampleBuffer out = [] \<Longrightarrow> cycleBatch env tooLong out = []"
  by (simp add: cycleBatch_def GetBufferedSamples_def convertToTimeSeries_def conv_result_def
      conv_init_def)

lemma cycleBatch_after_add:
  "SampleBuffer out = [] \<Longrightarrow>
   cycleBatch env tooLong (AddMetricSamples cs out) =
     fst (convertToTimeSeries env tooLong out cs)"
  by (cases out) (simp add: cycleBatch_def GetBufferedSamples_def AddMetricSamples_def)

lemma flush_Exited:
  "(\<exists>s. flush env d (tooLong, out) = Exited s) \<longleftrightarrow>
   (\<exists>err. Marshal env \<lparr>Timeseries = cycleBatch env tooLong out\<rparr> = Inl err)"
proof (cases "Marshal env \<lparr>Timeseries = cycleBatch env tooLong out\<rparr>")
  case (Inl err)
  from flush_marshal_fails [OF this, of d] Inl show ?thesis by simp
next
  case (Inr buf)
  show ?thesis
  proof (cases "snappyEncode env buf")
    case None
    from flush_encode_panics [OF Inr this, of d] Inr show ?thesis by simp
  next
    case (Some encoded)
    show ?thesis
    proof (cases "Store env encoded")
      case None
      from flush_store_succeeds [OF Inr Some this, of d] Inr show ?thesis by simp
    next
      case (Some err)
      from flush_store_fails [OF Inr \<open>snappyEncode env buf = Some encoded\<close> this, of d] Inr
      show ?thesis by simp
    qed
  qed
qed

text \<open>Sending.\<close>

lemma flush_sends:
  assumes "Marshal env \<lparr>Timeseries = cycleBatch env tooLong out\<rparr> = Inr buf"
    and "snappyEncode env buf = Some encoded"
  shows "\<exists>out'. flush env d (tooLong, out) = Returned (FlushPeriod (config out) < d, out') \<and>
    client out' = client out @ [encoded]"
proof (cases "Store env encoded")
  case None
  from flush_store_succeeds [OF assms this, of d] cycleConverted_frame(1) [of env tooLong out]
  show ?thesis by (simp add: flushDeferred_eq)
next
  case (Some err)
  from flush_store_fails [OF assms this, of d] cycleConverted_frame(1) [of env tooLong out]
  show ?thesis by (simp add: flushDeferred_eq)
qed

text \<open>Calls on one instance of several.\<close>

lemma flushOf_Returned:
  assumes "flushOf env d i p = Returned p'"
  shows "\<exists>tooLong' out'. flush env d (flushTooLong p, outputs p i) = Returned (tooLong', out') \<and>
    p' = \<lparr>flushTooLong = tooLong', outputs = (outputs p)(i := out')\<rparr>"
  using assms
  by (cases "flush env d (flushTooLong p, outputs p i)")
    (auto simp: flushOf_def Let_def)

lemma convertOf_fst:
  "fst (convertOf env i p cs) = fst (convertToTimeSeries env (flushTooLong p) (outputs p i) cs)"
  by (simp add: convertOf_def case_prod_beta)

lemma interference_example:
  "flushOf bulkEnv 1500 0 twoInstances =
     Returned \<lparr>flushTooLong = True, outputs = (\<lambda>i. idleOutput)
       (0 := idleOutput\<lparr>client := [[0]],
          logger := [DebugConverted 0, WarnTookTooLong 0 1500 1000]\<rparr>)\<rparr>"
  "flushOf bulkEnv 500 0 twoInstances =
     Returned \<lparr>flushTooLong = False, outputs = (\<lambda>i. idleOutput)
       (0 := idleOutput\<lparr>client := [[0]], logger := [DebugConverted 0, DebugTook 0 500]\<rparr>)\<rparr>"
  "length (fst (convertOf bulkEnv 1
     \<lparr>flushTooLong = True, outputs = (\<lambda>i. idleOutput)
       (0 := idleOutput\<lparr>client := [[0]],
          logger := [DebugConverted 0, WarnTookTooLong 0 1500 1000]\<rparr>)\<rparr> twoMetrics)) = 150001"
  "length (fst (convertOf bulkEnv 1
     \<lparr>flushTooLong = False, outputs = (\<lambda>i. idleOutput)
       (0 := idleOutput\<lparr>client := [[0]], logger := [DebugConverted 0, DebugTook 0 500]\<rparr>)\<rparr>
     twoMetrics)) = 300002"
  by (simp_all add: flushOf_def convertOf_fst twoInstances_def example_defs run_defs)

text \<open>One sample, and the loops around it.\<close>

lemma convertContainers_step:
  "convertContainers env out tooLong st (SampleContainer (s # rest) # cs) =
   convertContainers env out tooLong (convertSample env out st s) (SampleContainer rest # cs)"
  by simp

lemma convertSample_transform_error:
  assumes "\<not> seen st (Metric_Name (Sample_Metric s))"
    and "tagsToLabels env (Sample_Tags s) (config out) = (labels, lerr)"
    and "transform env (mapping out) (conv_metrics st) s labels = (Inl e, ms')"
  shows "convertSample env out st s =
    st\<lparr>seen := (seen st)(Metric_Name (Sample_Metric s) := True),
       conv_metrics := ms',
       conv_logger := conv_logger st @
         (case lerr of None \<Rightarrow> [] | Some le \<Rightarrow> [LogError le]) @ [LogError e]\<rparr>"
  using assms
  by (cases st) (simp add: convertSample_def convertBody_def split: option.splits)

lemma convertSample_labels_error:
  assumes "\<not> seen st (Metric_Name (Sample_Metric s))"
    and "tagsToLabels env (Sample_Tags s) (config out) = (labels, Some e)"
  shows "convertSample env out st s =
    (case transform env (mapping out) (conv_metrics st) s labels of
       (Inl e', ms') \<Rightarrow>
         st\<lparr>seen := (seen st)(Metric_Name (Sample_Metric s) := True),
            conv_metrics := ms',
            conv_logger := conv_logger st @ [LogError e, LogError e']\<rparr>
     | (Inr newts, ms') \<Rightarrow>
         st\<lparr>promTimeSeries := promTimeSeries st @ newts,
            seen := (seen st)(Metric_Name (Sample_Metric s) := True),
            conv_metrics := ms',
            conv_logger := conv_logger st @ [LogError e]\<rparr>)"
  using assms
  by (cases st) (simp add: convertSample_def convertBody_def split: prod.splits sum.splits)

lemma convertSample_marks:
  "seen (convertSample env out st s) (Metric_Name (Sample_Metric s))"
  by (simp add: convertSample_def seen_convertBody)

lemma convertSample_seen_mono:
  "seen st n \<Longrightarrow> seen (convertSample env out st s) n"
  by (simp add: convertSample_def seen_convertBody)

lemma convertSamples_seen_mono:
  "seen st n \<Longrightarrow> seen (convertSamples env out st ss) n"
  by (induction ss arbitrary: st) (simp_all add: convertSample_seen_mono)

lemma convertSamples_withoutMetric:
  "seen st n \<Longrightarrow>
   convertSamples env out st ss =
   convertSamples env out st (filter (\<lambda>s. Metric_Name (Sample_Metric s) \<noteq> n) ss)"
proof (induction ss arbitrary: st)
  case Nil
  show ?case by simp
next
  case (Cons s ss)
  show ?case
  proof (cases "Metric_Name (Sample_Metric s) = n")
    case True
    with Cons.prems have "convertSample env out st s = st"
      by (simp add: convertSample_def)
    with True Cons show ?thesis by simp
  next
    case False
    from Cons.prems have "seen (convertSample env out st s) n"
      by (rule convertSample_seen_mono)
    from Cons.IH [OF this] False show ?thesis by simp
  qed
qed

lemma convertContainers_withoutMetric:
  "seen st n \<Longrightarrow>
   convertContainers env out tooLong st cs =
   convertContainers env out tooLong st (map (withoutMetric n) cs)"
proof (induction cs arbitrary: st)
  case Nil
  show ?case by simp
next
  case (Cons c cs)
  let ?st' = "convertSamples env out st (GetSamples c)"
  have same: "convertSamples env out st (GetSamples (withoutMetric n c)) = ?st'"
    using convertSamples_withoutMetric [OF Cons.prems, of env out "GetSamples c"]
    by (simp add: withoutMetric_def)
  have "seen ?st' n"
    using Cons.prems by (rule convertSamples_seen_mono)
  from Cons.IH [OF this] same show ?case
    by (simp add: Let_def)
qed

lemma convertContainers_no_samples:
  "list_all (\<lambda>c. GetSamples c = []) cs \<Longrightarrow> convertContainers env out tooLong st cs = st"
  by (induction cs) (simp_all add: Let_def)

text \<open>The series of a batch are series that \<^verbatim>\<open>transform\<close> emitted.\<close>

lemma convertBody_list_all:
  assumes "transformEmitsDistinct env" and "list_all timestampsDistinct (promTimeSeries st)"
  shows "list_all timestampsDistinct (promTimeSeries (convertBody env out st s))"
proof -
  obtain labels lerr where l: "tagsToLabels env (Sample_Tags s) (config out) = (labels, lerr)"
    by (cases "tagsToLabels env (Sample_Tags s) (config out)")
  obtain res ms' where t: "transform env (mapping out) (conv_metrics st) s labels = (res, ms')"
    by (cases "transform env (mapping out) (conv_metrics st) s labels")
  show ?thesis
  proof (cases res)
    case (Inl e)
    with l t assms(2) show ?thesis by (simp add: convertBody_def)
  next
    case (Inr newts)
    with t assms(1) have "list_all timestampsDistinct newts"
      unfolding transformEmitsDistinct_def by blast
    with Inr l t assms(2) show ?thesis by (simp add: convertBody_def)
  qed
qed

lemma convertSamples_list_all:
  "transformEmitsDistinct env \<Longrightarrow> list_all timestampsDistinct (promTimeSeries st) \<Longrightarrow>
   list_all timestampsDistinct (promTimeSeries (convertSamples env out st ss))"
  by (induction ss arbitrary: st) (simp_all add: convertSample_def convertBody_list_all)

lemma convertToTimeSeries_list_all:
  assumes "transformEmitsDistinct env"
  shows "list_all timestampsDistinct (fst (convertToTimeSeries env tooLong out cs))"
proof -
  from convertContainers_prefix [of cs env out tooLong "conv_init out"] obtain k where
    "convertContainers env out tooLong (conv_init out) cs =
       convertSamples env out (conv_init out) (concat (map GetSamples (take k cs)))"
    by blast
  moreover have "list_all timestampsDistinct (promTimeSeries (conv_init out))"
    by (simp add: conv_init_def)
  ultimately show ?thesis
    using convertSamples_list_all [OF assms, of "conv_init out" out]
    by (simp add: convertToTimeSeries_def conv_result_def)
qed

lemma rawTransform_distinct: "transformEmitsDistinct (env\<lparr>transform := rawTransform\<rparr>)"
  by (auto simp: transformEmitsDistinct_def rawTransform_def timestampsDistinct_def)

text \<open>Under the raw variant a batch has one series, of one point, per first-seen sample.\<close>

lemma raw_convertBody:
  "transform env = rawTransform \<Longrightarrow>
   promTimeSeries (convertBody env out st s) =
     promTimeSeries st @
       [\<lparr>Labels = fst (tagsToLabels env (Sample_Tags s) (config out)),
         Samples = [\<lparr>Point_Value = Sample_Value s, Point_Timestamp = Sample_Time s\<rparr>]\<rparr>]"
  by (simp add: convertBody_def rawTransform_def case_prod_beta)

lemma raw_foldl:
  "transform env = rawTransform \<Longrightarrow>
   promTimeSeries (foldl (convertBody env out) st xs) =
     promTimeSeries st @
       map (\<lambda>s. \<lparr>Labels = fst (tagsToLabels env (Sample_Tags s) (config out)),
                 Samples = [\<lparr>Point_Value = Sample_Value s,
                             Point_Timestamp = Sample_Time s\<rparr>]\<rparr>) xs"
  by (induction xs arbitrary: st) (simp_all add: raw_convertBody)

lemma firstSeen_length:
  "length (firstSeen [] xs) = card (set (map (\<lambda>x. Metric_Name (Sample_Metric x)) xs))"
proof -
  have "length (firstSeen [] xs) =
      length (map (\<lambda>x. Metric_Name (Sample_Metric x)) (firstSeen [] xs))"
    by simp
  also have "\<dots> = card (set (map (\<lambda>x. Metric_Name (Sample_Metric x)) (firstSeen [] xs)))"
    using firstSeen_distinct [of "[]" xs] by (simp only: distinct_card)
  also have "\<dots> = card (set (map (\<lambda>x. Metric_Name (Sample_Metric x)) xs))"
    by (simp only: firstSeen_names) simp
  finally show ?thesis .
qed

lemma raw_batch:
  assumes "transform env = rawTransform"
  shows "list_all (\<lambda>ts. length (Samples ts) = 1) (fst (convertToTimeSeries env tooLong out cs)) \<and>
    length (fst (convertToTimeSeries env tooLong out cs)) \<le>
      card (set (map (\<lambda>x. Metric_Name (Sample_Metric x)) (concat (map GetSamples cs))))"
proof -
  from convertToTimeSeries_prefix [of cs env tooLong out] obtain k where
    k: "convertToTimeSeries env tooLong out cs =
       conv_result out (foldl (convertBody env out) (conv_init out)
         (firstSeen [] (concat (map GetSamples (take k cs)))))"
    by blast
  let ?xs = "firstSeen [] (concat (map GetSamples (take k cs)))"
  have batch: "fst (convertToTimeSeries env tooLong out cs) =
      map (\<lambda>s. \<lparr>Labels = fst (tagsToLabels env (Sample_Tags s) (config out)),
                Samples = [\<lparr>Point_Value = Sample_Value s,
                            Point_Timestamp = Sample_Time s\<rparr>]\<rparr>) ?xs"
    unfolding k by (simp add: conv_result_def raw_foldl [OF assms] conv_init_def)
  have "set (concat (map GetSamples (take k cs))) \<subseteq> set (concat (map GetSamples cs))"
    by (auto dest: in_set_takeD)
  then have "card (set (map (\<lambda>x. Metric_Name (Sample_Metric x))
        (concat (map GetSamples (take k cs))))) \<le>
      card (set (map (\<lambda>x. Metric_Name (Sample_Metric x)) (concat (map GetSamples cs))))"
    by (intro card_mono) (auto dest: in_set_takeD)
  with batch show ?thesis
    by (simp add: firstSeen_length list_all_iff)
qed

section \<open>The claims\<close>

text \<open>
  C1. In one call of \<^verbatim>\<open>convertToTimeSeries\<close> at most one sample per metric name is
  converted. The call processes the first \<open>k\<close> containers (all of them when
  \<^verbatim>\<open>flushTooLong\<close> is clear) and does exactly what the loop body, with no \<^verbatim>\<open>seen\<close>
  check, does on the first-seen samples of those containers in their order: a sample
  whose metric name an earlier sample of the call had adds nothing, the first sample of
  each name is the one whose labels are built and which goes to \<^verbatim>\<open>transform\<close>. The
  first-seen samples have pairwise distinct names, and a sample is among them exactly
  when no sample before it has its name.
\<close>

theorem convertToTimeSeries_first_seen:
  "(\<exists>k\<le>length cs.
      (tooLong \<or> k = length cs) \<and>
      convertToTimeSeries env tooLong out cs =
        conv_result out (foldl (convertBody env out) (conv_init out)
          (firstSeen [] (concat (map GetSamples (take k cs)))))) \<and>
   distinct (map (\<lambda>x. Metric_Name (Sample_Metric x)) (firstSeen [] ss)) \<and>
   firstSeen [] (xs @ [s]) =
     firstSeen [] xs @
       (if Metric_Name (Sample_Metric s) \<in> set (map (\<lambda>x. Metric_Name (Sample_Metric x)) xs)
        then [] else [s])"
proof (intro conjI)
  show "\<exists>k\<le>length cs.
      (tooLong \<or> k = length cs) \<and>
      convertToTimeSeries env tooLong out cs =
        conv_result out (foldl (convertBody env out) (conv_init out)
          (firstSeen [] (concat (map GetSamples (take k cs)))))"
    using convertToTimeSeries_prefix [of cs env tooLong out] by blast
  show "distinct (map (\<lambda>x. Metric_Name (Sample_Metric x)) (firstSeen [] ss))"
    by (rule firstSeen_distinct)
  show "firstSeen [] (xs @ [s]) =
     firstSeen [] xs @
       (if Metric_Name (Sample_Metric s) \<in> set (map (\<lambda>x. Metric_Name (Sample_Metric x)) xs)
        then [] else [s])"
    using firstSeen_snoc [of "[]" xs s] by simp
qed

theorem convertToTimeSeries_first_seen_witness:
  "convertToTimeSeries rawEnv False idleOutput httpReqs =
     ([\<lparr>Labels = [\<lparr>Label_Name = ''method'', Label_Value = ''GET''\<rparr>],
        Samples = [\<lparr>Point_Value = 1, Point_Timestamp = 7\<rparr>]\<rparr>], idleOutput)"
proof -
  from convertToTimeSeries_first_seen [of httpReqs False rawEnv idleOutput]
  obtain k where k: "k \<le> length httpReqs" "k = length httpReqs"
    "convertToTimeSeries rawEnv False idleOutput httpReqs =
       conv_result idleOutput (foldl (convertBody rawEnv idleOutput) (conv_init idleOutput)
         (firstSeen [] (concat (map GetSamples (take k httpReqs)))))"
    by blast
  have "firstSeen [] (concat (map GetSamples httpReqs)) =
      [counterSample ''http_reqs'' [(''method'', ''GET'')] 7 1]"
    by (simp add: httpReqs_def counterSample_def)
  with k show ?thesis
    by (simp add: convertBody_def conv_result_def conv_init_def rawEnv_def plainLabels_def
        rawTransform_def counterSample_def idleOutput_def)
qed

text \<open>
  C3. With \<^verbatim>\<open>flushTooLong\<close> clear, no cap applies: every container is processed.
  With the flag set, the call processes the first \<open>k\<close> containers and stops: either
  these are all, or the accumulated series now exceed the constant 150000; after any
  shorter non-empty prefix they did not. The flag that a cycle's conversion reads is
  the one it found: a \<^verbatim>\<open>flush\<close> that returns has handed to the transport the encoding
  of the batch converted under the incoming flag, and leaves the flag saying whether
  its own elapsed time exceeded the flush period.
\<close>

theorem backpressure_cap:
  "convertToTimeSeries env False out cs =
     conv_result out (convertSamples env out (conv_init out) (concat (map GetSamples cs))) \<and>
   (\<exists>k\<le>length cs.
      convertToTimeSeries env True out cs =
        conv_result out
          (convertSamples env out (conv_init out) (concat (map GetSamples (take k cs)))) \<and>
      (k = length cs \<or> 150000 < length (fst (convertToTimeSeries env True out cs))) \<and>
      (\<forall>j. 0 < j \<and> j < k \<longrightarrow>
         length (fst (conv_result out
           (convertSamples env out (conv_init out) (concat (map GetSamples (take j cs))))))
         \<le> 150000)) \<and>
   (flush env d (tooLong, out) = Returned (tooLong', out') \<longrightarrow>
      tooLong' = (FlushPeriod (config out) < d) \<and>
      (\<exists>buf encoded.
         Marshal env
           \<lparr>Timeseries = fst (convertToTimeSeries env tooLong (out\<lparr>SampleBuffer := []\<rparr>)
              (SampleBuffer out))\<rparr> = Inr buf \<and>
         snappyEncode env buf = Some encoded \<and>
         client out' = client out @ [encoded]))"
proof (intro conjI)
  show "convertToTimeSeries env False out cs =
     conv_result out (convertSamples env out (conv_init out) (concat (map GetSamples cs)))"
    by (rule convertToTimeSeries_clear)
  from convertContainers_prefix [of cs env out True "conv_init out"]
  obtain k where k: "k \<le> length cs"
    "convertContainers env out True (conv_init out) cs =
       convertSamples env out (conv_init out) (concat (map GetSamples (take k cs)))"
    "k = length cs \<or>
       150000 < length (promTimeSeries (convertContainers env out True (conv_init out) cs))"
    "\<forall>j. 0 < j \<and> j < k \<longrightarrow>
       length (promTimeSeries
         (convertSamples env out (conv_init out) (concat (map GetSamples (take j cs)))))
       \<le> 150000"
    by auto
  then show "\<exists>k\<le>length cs.
      convertToTimeSeries env True out cs =
        conv_result out
          (convertSamples env out (conv_init out) (concat (map GetSamples (take k cs)))) \<and>
      (k = length cs \<or> 150000 < length (fst (convertToTimeSeries env True out cs))) \<and>
      (\<forall>j. 0 < j \<and> j < k \<longrightarrow>
         length (fst (conv_result out
           (convertSamples env out (conv_init out) (concat (map GetSamples (take j cs))))))
         \<le> 150000)"
    by (intro exI [of _ k]) (simp add: convertToTimeSeries_def conv_result_def)
  show "flush env d (tooLong, out) = Returned (tooLong', out') \<longrightarrow>
      tooLong' = (FlushPeriod (config out) < d) \<and>
      (\<exists>buf encoded.
         Marshal env
           \<lparr>Timeseries = fst (convertToTimeSeries env tooLong (out\<lparr>SampleBuffer := []\<rparr>)
              (SampleBuffer out))\<rparr> = Inr buf \<and>
         snappyEncode env buf = Some encoded \<and>
         client out' = client out @ [encoded])"
    using flush_Returned [of env d tooLong out tooLong' out']
    by (simp add: cycleBatch_def GetBufferedSamples_def)
qed

theorem backpressure_cap_witness:
  "length (fst (convertToTimeSeries bulkEnv False idleOutput twoMetrics)) = 300002 \<and>
   length (fst (convertToTimeSeries bulkEnv True idleOutput twoMetrics)) = 150001 \<and>
   flush rawEnv 1500 (False, busyOutput) =
     Returned (True, idleOutput
       \<lparr>client := [[1]], logger := [DebugConverted 1, WarnTookTooLong 1 1500 1000]\<rparr>) \<and>
   Marshal rawEnv \<lparr>Timeseries = fst (convertToTimeSeries rawEnv False idleOutput httpReqs)\<rparr> =
     Inr [1]"
proof -
  note cap = backpressure_cap [of bulkEnv idleOutput twoMetrics]
  have all: "length (fst (convertToTimeSeries bulkEnv False idleOutput twoMetrics)) = 300002"
    using cap by (simp add: example_defs run_defs)
  from cap obtain k where k: "k \<le> length twoMetrics"
    "convertToTimeSeries bulkEnv True idleOutput twoMetrics =
       conv_result idleOutput (convertSamples bulkEnv idleOutput (conv_init idleOutput)
         (concat (map GetSamples (take k twoMetrics))))"
    "k = length twoMetrics \<or>
       150000 < length (fst (convertToTimeSeries bulkEnv True idleOutput twoMetrics))"
    "\<forall>j. 0 < j \<and> j < k \<longrightarrow>
       length (fst (conv_result idleOutput (convertSamples bulkEnv idleOutput
         (conv_init idleOutput) (concat (map GetSamples (take j twoMetrics)))))) \<le> 150000"
    by blast
  have first: "length (fst (conv_result idleOutput (convertSamples bulkEnv idleOutput
      (conv_init idleOutput) (concat (map GetSamples (take 1 twoMetrics)))))) = 150001"
    by (simp add: example_defs run_defs)
  have "k \<noteq> 2"
  proof
    assume "k = 2"
    with k(4) have "length (fst (conv_result idleOutput (convertSamples bulkEnv idleOutput
      (conv_init idleOutput) (concat (map GetSamples (take 1 twoMetrics)))))) \<le> 150000"
      by simp
    with first show False by simp
  qed
  moreover have "k \<noteq> 0"
  proof
    assume "k = 0"
    with k(2,3) show False by (simp add: twoMetrics_def run_defs)
  qed
  moreover from k(1) have "k \<le> 2" by (simp add: twoMetrics_def)
  ultimately have "k = 1" by arith
  with k(2) first
  have capped: "length (fst (convertToTimeSeries bulkEnv True idleOutput twoMetrics)) = 150001"
    by simp
  have ret: "flush rawEnv 1500 (False, busyOutput) =
     Returned (True, idleOutput
       \<lparr>client := [[1]], logger := [DebugConverted 1, WarnTookTooLong 1 1500 1000]\<rparr>)"
    by (simp add: example_defs run_defs)
  from backpressure_cap [of rawEnv busyOutput _ 1500 False True
      "idleOutput\<lparr>client := [[1]],
         logger := [DebugConverted 1, WarnTookTooLong 1 1500 1000]\<rparr>"] ret
  have "\<exists>buf encoded.
      Marshal rawEnv \<lparr>Timeseries = fst (convertToTimeSeries rawEnv False
        (busyOutput\<lparr>SampleBuffer := []\<rparr>) (SampleBuffer busyOutput))\<rparr> = Inr buf \<and>
      snappyEncode rawEnv buf = Some encoded \<and>
      client (idleOutput\<lparr>client := [[1]],
         logger := [DebugConverted 1, WarnTookTooLong 1 1500 1000]\<rparr>) =
        client busyOutput @ [encoded]"
    by blast
  then have "Marshal rawEnv
      \<lparr>Timeseries = fst (convertToTimeSeries rawEnv False idleOutput httpReqs)\<rparr> = Inr [1]"
    by (auto simp: busyOutput_def idleOutput_def rawEnv_def)
  with all capped ret show ?thesis by simp
qed

text \<open>
  C4. A call of \<^verbatim>\<open>flush\<close> that returns, or that panics in \<^verbatim>\<open>snappy.Encode\<close>, leaves
  \<^verbatim>\<open>flushTooLong\<close> saying whether the elapsed time exceeded the configured flush
  period, and the entries that the cycle added to the log hold exactly one duration
  entry: the warning, with the number of series of the batch, when the elapsed time is
  greater than the period, and the debug entry otherwise. The third way out is the
  \<^verbatim>\<open>Fatal\<close> after a failed \<^verbatim>\<open>Marshal\<close>: the process exits there, no deferred function
  runs, the flag is as it was found and no duration entry is logged.
\<close>

theorem flush_sets_flushTooLong:
  "(case flush env d (tooLong, out) of
      Returned (tooLong', out') \<Rightarrow>
        tooLong' = (FlushPeriod (config out) < d) \<and>
        (\<exists>new. logger out' = logger out @ new \<and>
           filter durationEntry new =
             [if FlushPeriod (config out) < d
              then WarnTookTooLong (length (cycleBatch env tooLong out)) d
                     (FlushPeriod (config out))
              else DebugTook (length (cycleBatch env tooLong out)) d])
    | Panicked (tooLong', out') \<Rightarrow>
        tooLong' = (FlushPeriod (config out) < d) \<and>
        (\<exists>new. logger out' = logger out @ new \<and>
           filter durationEntry new =
             [if FlushPeriod (config out) < d
              then WarnTookTooLong (length (cycleBatch env tooLong out)) d
                     (FlushPeriod (config out))
              else DebugTook (length (cycleBatch env tooLong out)) d])
    | Exited (tooLong', out') \<Rightarrow>
        tooLong' = tooLong \<and>
        (\<exists>err. Marshal env \<lparr>Timeseries = cycleBatch env tooLong out\<rparr> = Inl err) \<and>
        (\<exists>new. logger out' = logger out @ new \<and> filter durationEntry new = []))"
proof -
  from cycleConverted_logger [of env tooLong out] obtain new where
    new: "logger (cycleConverted env tooLong out) = logger out @ new"
      "filter durationEntry new = []" by blast
  have cfg: "config (cycleConverted env tooLong out) = config out"
    by (rule cycleConverted_frame)
  show ?thesis
  proof (cases "Marshal env \<lparr>Timeseries = cycleBatch env tooLong out\<rparr>")
    case (Inl err)
    from flush_marshal_fails [OF this, of d] Inl new show ?thesis by simp
  next
    case (Inr buf)
    show ?thesis
    proof (cases "snappyEncode env buf")
      case None
      from flush_encode_panics [OF Inr this, of d] new cfg show ?thesis
        by (simp add: flushDeferred_eq)
    next
      case (Some encoded)
      show ?thesis
      proof (cases "Store env encoded")
        case None
        from flush_store_succeeds [OF Inr Some this, of d] new cfg show ?thesis
          by (simp add: flushDeferred_eq)
      next
        case (Some err)
        from flush_store_fails [OF Inr \<open>snappyEncode env buf = Some encoded\<close> this, of d]
          new cfg
        show ?thesis by (simp add: flushDeferred_eq)
      qed
    qed
  qed
qed

theorem flush_sets_flushTooLong_witness:
  "flush rawEnv 1500 (False, busyOutput) =
     Returned (True, idleOutput
       \<lparr>client := [[1]], logger := [DebugConverted 1, WarnTookTooLong 1 1500 1000]\<rparr>) \<and>
   flush rawEnv 1000 (True, busyOutput) =
     Returned (False, idleOutput
       \<lparr>client := [[1]], logger := [DebugConverted 1, DebugTook 1 1000]\<rparr>) \<and>
   length (cycleBatch rawEnv False busyOutput) = 1 \<and>
   length (cycleBatch rawEnv True busyOutput) = 1"
proof -
  have slow: "flush rawEnv 1500 (False, busyOutput) =
     Returned (True, idleOutput
       \<lparr>client := [[1]], logger := [DebugConverted 1, WarnTookTooLong 1 1500 1000]\<rparr>)"
    by (simp add: example_defs run_defs)
  have fast: "flush rawEnv 1000 (True, busyOutput) =
     Returned (False, idleOutput
       \<lparr>client := [[1]], logger := [DebugConverted 1, DebugTook 1 1000]\<rparr>)"
    by (simp add: example_defs run_defs)
  from flush_sets_flushTooLong [where env = rawEnv and d = 1500 and tooLong = False and out = busyOutput] slow
  have "length (cycleBatch rawEnv False busyOutput) = 1"
    by (auto simp: busyOutput_def idleOutput_def)
  moreover from flush_sets_flushTooLong [where env = rawEnv and d = 1000 and tooLong = True and out = busyOutput] fast
  have "length (cycleBatch rawEnv True busyOutput) = 1"
    by (auto simp: busyOutput_def idleOutput_def)
  ultimately show ?thesis using slow fast by simp
qed

text \<open>
  C8. When \<^verbatim>\<open>client.Store\<close> answers with an error, \<^verbatim>\<open>flush\<close> returns; the transport has
  been handed the one request and nothing more (no retry), the error is logged between
  the cycle's two other entries, the sample buffer is empty, and apart from that log
  entry the instance is what a successful send would have left (nothing of the batch is
  kept). The next cycle's batch is the conversion of what was buffered after this one.
  When \<^verbatim>\<open>Marshal\<close> fails, the outcome is the fatal exit, and nothing was handed to the
  transport.
\<close>

theorem flush_store_error:
  "(Marshal env \<lparr>Timeseries = cycleBatch env tooLong out\<rparr> = Inr buf \<and>
    snappyEncode env buf = Some encoded \<and> Store env encoded = Some err \<longrightarrow>
      (\<exists>out'.
         flush env d (tooLong, out) = Returned (FlushPeriod (config out) < d, out') \<and>
         client out' = client out @ [encoded] \<and>
         SampleBuffer out' = [] \<and>
         (\<exists>took. durationEntry took \<and>
            logger out' = logger (cycleConverted env tooLong out) @
              [DebugConverted (length (cycleBatch env tooLong out)), ErrorStore err, took] \<and>
            flush (env\<lparr>Store := (\<lambda>encoded. None)\<rparr>) d (tooLong, out) =
              Returned (FlushPeriod (config out) < d,
                out'\<lparr>logger := logger (cycleConverted env tooLong out) @
                  [DebugConverted (length (cycleBatch env tooLong out)), took]\<rparr>)) \<and>
         cycleBatch env' tooLong' (AddMetricSamples cs out') =
           fst (convertToTimeSeries env' tooLong' out' cs))) \<and>
   (Marshal env \<lparr>Timeseries = cycleBatch env tooLong out\<rparr> = Inl err \<longrightarrow>
      (\<exists>out'.
         flush env d (tooLong, out) = Exited (tooLong, out') \<and>
         client out' = client out \<and>
         logger out' = logger (cycleConverted env tooLong out) @
           [DebugConverted (length (cycleBatch env tooLong out)), FatalMarshal err]))"
proof (intro conjI impI)
  assume a: "Marshal env \<lparr>Timeseries = cycleBatch env tooLong out\<rparr> = Inr buf \<and>
    snappyEncode env buf = Some encoded \<and> Store env encoded = Some err"
  let ?c = "cycleConverted env tooLong out"
  let ?n = "length (cycleBatch env tooLong out)"
  let ?took = "if FlushPeriod (config out) < d
    then WarnTookTooLong ?n d (FlushPeriod (config out)) else DebugTook ?n d"
  let ?out' = "?c\<lparr>client := client out @ [encoded],
    logger := logger ?c @ [DebugConverted ?n, ErrorStore err, ?took]\<rparr>"
  have cfg: "config ?c = config out" and buf: "SampleBuffer ?c = []"
    by (rule cycleConverted_frame)+
  from a have fail: "flush env d (tooLong, out) = Returned (FlushPeriod (config out) < d, ?out')"
    using flush_store_fails [of env tooLong out buf encoded err d] cfg
    by (simp add: flushDeferred_eq)
  have "Marshal (env\<lparr>Store := (\<lambda>encoded. None)\<rparr>)
      \<lparr>Timeseries = cycleBatch (env\<lparr>Store := (\<lambda>encoded. None)\<rparr>) tooLong out\<rparr> = Inr buf"
    using a by (simp add: cycle_Store)
  from flush_store_succeeds [OF this, of encoded d] a cfg
  have ok: "flush (env\<lparr>Store := (\<lambda>encoded. None)\<rparr>) d (tooLong, out) =
      Returned (FlushPeriod (config out) < d,
        ?out'\<lparr>logger := logger ?c @ [DebugConverted ?n, ?took]\<rparr>)"
    by (simp add: cycle_Store flushDeferred_eq)
  have next_cycle: "cycleBatch env' tooLong' (AddMetricSamples cs ?out') =
      fst (convertToTimeSeries env' tooLong' ?out' cs)"
    by (rule cycleBatch_after_add) (simp add: buf)
  have took: "durationEntry ?took" by simp
  show "\<exists>out'.
      flush env d (tooLong, out) = Returned (FlushPeriod (config out) < d, out') \<and>
      client out' = client out @ [encoded] \<and>
      SampleBuffer out' = [] \<and>
      (\<exists>took. durationEntry took \<and>
         logger out' = logger ?c @ [DebugConverted ?n, ErrorStore err, took] \<and>
         flush (env\<lparr>Store := (\<lambda>encoded. None)\<rparr>) d (tooLong, out) =
           Returned (FlushPeriod (config out) < d,
             out'\<lparr>logger := logger ?c @ [DebugConverted ?n, took]\<rparr>)) \<and>
      cycleBatch env' tooLong' (AddMetricSamples cs out') =
        fst (convertToTimeSeries env' tooLong' out' cs)"
  proof (intro exI [of _ ?out'] conjI)
    show "\<exists>took. durationEntry took \<and>
         logger ?out' = logger ?c @ [DebugConverted ?n, ErrorStore err, took] \<and>
         flush (env\<lparr>Store := (\<lambda>encoded. None)\<rparr>) d (tooLong, out) =
           Returned (FlushPeriod (config out) < d,
             ?out'\<lparr>logger := logger ?c @ [DebugConverted ?n, took]\<rparr>)"
      using took ok by (intro exI [of _ ?took]) simp
  qed (use fail buf next_cycle in simp_all)
next
  assume a: "Marshal env \<lparr>Timeseries = cycleBatch env tooLong out\<rparr> = Inl err"
  from flush_marshal_fails [OF a, of d] cycleConverted_frame(2) [of env tooLong out]
  show "\<exists>out'.
      flush env d (tooLong, out) = Exited (tooLong, out') \<and>
      client out' = client out \<and>
      logger out' = logger (cycleConverted env tooLong out) @
        [DebugConverted (length (cycleBatch env tooLong out)), FatalMarshal err]"
    by simp
qed

theorem flush_store_error_witness:
  "(\<exists>out'. flush downEnv 300 (False, busyOutput) = Returned (False, out') \<and>
      client out' = [[1]] \<and> SampleBuffer out' = []) \<and>
   (\<exists>out'. flush unmarshallableEnv 300 (False, busyOutput) = Exited (False, out') \<and>
      client out' = []) \<and>
   flush downEnv 300 (False, busyOutput) =
     Returned (False, idleOutput
       \<lparr>client := [[1]],
        logger := [DebugConverted 1, ErrorStore ''server returned HTTP status 503'',
                   DebugTook 1 300]\<rparr>) \<and>
   flush unmarshallableEnv 300 (False, busyOutput) =
     Exited (False, idleOutput
       \<lparr>logger := [DebugConverted 1, FatalMarshal ''proto: invalid UTF-8 string'']\<rparr>)"
proof -
  have batch: "cycleBatch rawEnv False busyOutput =
      [\<lparr>Labels = [\<lparr>Label_Name = ''method'', Label_Value = ''GET''\<rparr>],
        Samples = [\<lparr>Point_Value = 1, Point_Timestamp = 7\<rparr>]\<rparr>]"
    by (simp add: cycleBatch_def example_defs run_defs)
  have b1: "cycleBatch downEnv False busyOutput = cycleBatch rawEnv False busyOutput"
    by (simp add: downEnv_def cycle_Store)
  have h1: "Marshal downEnv \<lparr>Timeseries = cycleBatch downEnv False busyOutput\<rparr> = Inr [1] \<and>
      snappyEncode downEnv [1] = Some [1] \<and>
      Store downEnv [1] = Some ''server returned HTTP status 503''"
    unfolding b1 batch by (simp add: downEnv_def rawEnv_def)
  have h2: "Marshal unmarshallableEnv
      \<lparr>Timeseries = cycleBatch unmarshallableEnv False busyOutput\<rparr> =
      Inl ''proto: invalid UTF-8 string''"
    by (simp add: unmarshallableEnv_def)
  from flush_store_error [where env = downEnv and tooLong = False and out = busyOutput
      and buf = "[1]" and encoded = "[1]" and d = 300] h1
  obtain out' where "flush downEnv 300 (False, busyOutput) =
      Returned (FlushPeriod (config busyOutput) < 300, out')"
    "client out' = client busyOutput @ [[1]]" "SampleBuffer out' = []"
    by blast
  then have down: "\<exists>out'. flush downEnv 300 (False, busyOutput) = Returned (False, out') \<and>
      client out' = [[1]] \<and> SampleBuffer out' = []"
    by (simp add: busyOutput_def idleOutput_def)
  from flush_store_error [where env = unmarshallableEnv and tooLong = False
      and out = busyOutput and d = 300 and err = "''proto: invalid UTF-8 string''"] h2
  obtain out'' where
    "flush unmarshallableEnv 300 (False, busyOutput) = Exited (False, out'')"
    "client out'' = client busyOutput"
    by blast
  then have fatal: "\<exists>out'. flush unmarshallableEnv 300 (False, busyOutput) =
      Exited (False, out') \<and> client out' = []"
    by (simp add: busyOutput_def idleOutput_def)
  have r1: "flush downEnv 300 (False, busyOutput) =
     Returned (False, idleOutput
       \<lparr>client := [[1]],
        logger := [DebugConverted 1, ErrorStore ''server returned HTTP status 503'',
                   DebugTook 1 300]\<rparr>)"
    by (simp add: downEnv_def example_defs run_defs)
  have r2: "flush unmarshallableEnv 300 (False, busyOutput) =
     Exited (False, idleOutput
       \<lparr>logger := [DebugConverted 1, FatalMarshal ''proto: invalid UTF-8 string'']\<rparr>)"
    by (simp add: unmarshallableEnv_def example_defs run_defs)
  from down fatal r1 r2 show ?thesis by blast
qed

text \<open>
  C10. \<^verbatim>\<open>flush\<close> has no test for an empty batch. It ends in the fatal exit exactly when
  \<^verbatim>\<open>Marshal\<close> fails on the batch; when \<^verbatim>\<open>Marshal\<close> and \<^verbatim>\<open>snappy.Encode\<close> succeed it
  returns and has handed the encoded request to \<^verbatim>\<open>client.Store\<close>, once. With an empty
  buffer the batch is the empty list, and the request with no time series is
  marshalled, encoded and handed to \<^verbatim>\<open>client.Store\<close> like any other.
\<close>

theorem flush_sends_every_batch:
  "((\<exists>s. flush env d (tooLong, out) = Exited s) \<longleftrightarrow>
      (\<exists>err. Marshal env \<lparr>Timeseries = cycleBatch env tooLong out\<rparr> = Inl err)) \<and>
   (Marshal env \<lparr>Timeseries = cycleBatch env tooLong out\<rparr> = Inr buf \<and>
    snappyEncode env buf = Some encoded \<longrightarrow>
      (\<exists>out'. flush env d (tooLong, out) = Returned (FlushPeriod (config out) < d, out') \<and>
         client out' = client out @ [encoded])) \<and>
   (SampleBuffer out = [] \<and> Marshal env \<lparr>Timeseries = []\<rparr> = Inr buf \<and>
    snappyEncode env buf = Some encoded \<longrightarrow>
      (\<exists>out'. flush env d (tooLong, out) = Returned (FlushPeriod (config out) < d, out') \<and>
         client out' = client out @ [encoded]))"
proof (intro conjI impI)
  show "(\<exists>s. flush env d (tooLong, out) = Exited s) \<longleftrightarrow>
      (\<exists>err. Marshal env \<lparr>Timeseries = cycleBatch env tooLong out\<rparr> = Inl err)"
    by (rule flush_Exited)
next
  assume "Marshal env \<lparr>Timeseries = cycleBatch env tooLong out\<rparr> = Inr buf \<and>
    snappyEncode env buf = Some encoded"
  then show "\<exists>out'. flush env d (tooLong, out) = Returned (FlushPeriod (config out) < d, out') \<and>
      client out' = client out @ [encoded]"
    using flush_sends [of env tooLong out buf encoded d] by blast
next
  assume a: "SampleBuffer out = [] \<and> Marshal env \<lparr>Timeseries = []\<rparr> = Inr buf \<and>
    snappyEncode env buf = Some encoded"
  then have "cycleBatch env tooLong out = []"
    by (simp add: cycleBatch_empty)
  with a show "\<exists>out'. flush env d (tooLong, out) =
      Returned (FlushPeriod (config out) < d, out') \<and> client out' = client out @ [encoded]"
    using flush_sends [of env tooLong out buf encoded d] by simp
qed

theorem flush_sends_every_batch_witness:
  "(\<exists>out'. flush rawEnv 300 (False, idleOutput) = Returned (False, out') \<and>
      client out' = [[0]]) \<and>
   flush rawEnv 300 (False, idleOutput) =
     Returned (False, idleOutput
       \<lparr>client := [[0]], logger := [DebugConverted 0, DebugTook 0 300]\<rparr>)"
proof -
  have h: "SampleBuffer idleOutput = [] \<and> Marshal rawEnv \<lparr>Timeseries = []\<rparr> = Inr [0] \<and>
      snappyEncode rawEnv [0] = Some [0]"
    by (simp add: idleOutput_def rawEnv_def)
  from flush_sends_every_batch [where env = rawEnv and out = idleOutput and buf = "[0]"
      and encoded = "[0]" and d = 300 and tooLong = False] h
  have "\<exists>out'. flush rawEnv 300 (False, idleOutput) =
      Returned (FlushPeriod (config idleOutput) < 300, out') \<and>
      client out' = client idleOutput @ [[0]]"
    by blast
  then have sent: "\<exists>out'. flush rawEnv 300 (False, idleOutput) = Returned (False, out') \<and>
      client out' = [[0]]"
    by (simp add: idleOutput_def)
  have "flush rawEnv 300 (False, idleOutput) =
     Returned (False, idleOutput
       \<lparr>client := [[0]], logger := [DebugConverted 0, DebugTook 0 300]\<rparr>)"
    by (simp add: example_defs run_defs)
  with sent show ?thesis by blast
qed

text \<open>
  C5. \<^verbatim>\<open>flushTooLong\<close> belongs to the process, not to an instance. A \<^verbatim>\<open>flush\<close> of
  instance \<open>i\<close> that returns leaves the flag saying whether its elapsed time exceeded
  the flush period of instance \<open>i\<close>, leaves every other instance \<open>j\<close> as it was, and
  the next conversion of instance \<open>j\<close> runs under that flag. The deferred function
  changes the flag and, of the instance, the log only. There are a process and two
  elapsed times of a flush of instance 0 after which instance 1, in the same state,
  converts the same containers to different batches.
\<close>

theorem flushTooLong_is_process_wide:
  "(i \<noteq> j \<and> flushOf env d i p = Returned p' \<longrightarrow>
      flushTooLong p' = (FlushPeriod (config (outputs p i)) < d) \<and>
      outputs p' j = outputs p j \<and>
      fst (convertOf env' j p' cs) =
        fst (convertToTimeSeries env' (FlushPeriod (config (outputs p i)) < d)
               (outputs p j) cs)) \<and>
   flushDeferred d nts (tooLong, out) =
     (FlushPeriod (config out) < d,
      out\<lparr>logger := logger out @
        [if FlushPeriod (config out) < d
         then WarnTookTooLong nts d (FlushPeriod (config out)) else DebugTook nts d]\<rparr>) \<and>
   (\<exists>(env0 :: unit env) p0 d1 d2 p1 p2 cs0.
      flushOf env0 d1 0 p0 = Returned p1 \<and> flushOf env0 d2 0 p0 = Returned p2 \<and>
      outputs p1 1 = outputs p2 1 \<and>
      fst (convertOf env0 1 p1 cs0) \<noteq> fst (convertOf env0 1 p2 cs0))"
proof (intro conjI impI)
  assume a: "i \<noteq> j \<and> flushOf env d i p = Returned p'"
  then obtain tooLong' out' where
    f: "flush env d (flushTooLong p, outputs p i) = Returned (tooLong', out')" and
    p': "p' = \<lparr>flushTooLong = tooLong', outputs = (outputs p)(i := out')\<rparr>"
    using flushOf_Returned [of env d i p p'] by blast
  from flush_Returned [OF f] have "tooLong' = (FlushPeriod (config (outputs p i)) < d)"
    by simp
  with a p' show "flushTooLong p' = (FlushPeriod (config (outputs p i)) < d)"
    and "outputs p' j = outputs p j"
    and "fst (convertOf env' j p' cs) =
        fst (convertToTimeSeries env' (FlushPeriod (config (outputs p i)) < d)
               (outputs p j) cs)"
    by (simp_all add: convertOf_fst)
next
  show "flushDeferred d nts (tooLong, out) =
     (FlushPeriod (config out) < d,
      out\<lparr>logger := logger out @
        [if FlushPeriod (config out) < d
         then WarnTookTooLong nts d (FlushPeriod (config out)) else DebugTook nts d]\<rparr>)"
    by (rule flushDeferred_eq)
next
  let ?p1 = "\<lparr>flushTooLong = True, outputs = (\<lambda>i. idleOutput)
       (0 := idleOutput\<lparr>client := [[0]],
          logger := [DebugConverted 0, WarnTookTooLong 0 1500 1000]\<rparr>)\<rparr>"
  let ?p2 = "\<lparr>flushTooLong = False, outputs = (\<lambda>i. idleOutput)
       (0 := idleOutput\<lparr>client := [[0]], logger := [DebugConverted 0, DebugTook 0 500]\<rparr>)\<rparr>"
  have "fst (convertOf bulkEnv 1 ?p1 twoMetrics) \<noteq> fst (convertOf bulkEnv 1 ?p2 twoMetrics)"
  proof
    assume "fst (convertOf bulkEnv 1 ?p1 twoMetrics) = fst (convertOf bulkEnv 1 ?p2 twoMetrics)"
    then have "length (fst (convertOf bulkEnv 1 ?p1 twoMetrics)) =
        length (fst (convertOf bulkEnv 1 ?p2 twoMetrics))"
      by simp
    then show False
      unfolding interference_example(3,4) by simp
  qed
  moreover have "outputs ?p1 1 = outputs ?p2 1" by simp
  ultimately show "\<exists>(env0 :: unit env) p0 d1 d2 p1 p2 cs0.
      flushOf env0 d1 0 p0 = Returned p1 \<and> flushOf env0 d2 0 p0 = Returned p2 \<and>
      outputs p1 1 = outputs p2 1 \<and>
      fst (convertOf env0 1 p1 cs0) \<noteq> fst (convertOf env0 1 p2 cs0)"
    using interference_example(1,2) by blast
qed

theorem flushTooLong_is_process_wide_witness:
  "(\<exists>p'. flushOf bulkEnv 1500 0 twoInstances = Returned p' \<and> flushTooLong p' \<and>
      outputs p' 1 = idleOutput \<and>
      length (fst (convertOf bulkEnv 1 p' twoMetrics)) = 150001) \<and>
   length (fst (convertOf bulkEnv 1 twoInstances twoMetrics)) = 300002"
proof -
  let ?p1 = "\<lparr>flushTooLong = True, outputs = (\<lambda>i. idleOutput)
       (0 := idleOutput\<lparr>client := [[0]],
          logger := [DebugConverted 0, WarnTookTooLong 0 1500 1000]\<rparr>)\<rparr>"
  have h: "(0::nat) \<noteq> 1 \<and> flushOf bulkEnv 1500 0 twoInstances = Returned ?p1"
    using interference_example(1) by simp
  from flushTooLong_is_process_wide [where i = 0 and j = 1 and env = bulkEnv and d = 1500
      and p = twoInstances and p' = ?p1 and env' = bulkEnv and cs = twoMetrics] h
  have c: "flushTooLong ?p1 = (FlushPeriod (config (outputs twoInstances 0)) < 1500)"
    "outputs ?p1 1 = outputs twoInstances 1"
    "fst (convertOf bulkEnv 1 ?p1 twoMetrics) =
       fst (convertToTimeSeries bulkEnv (FlushPeriod (config (outputs twoInstances 0)) < 1500)
              (outputs twoInstances 1) twoMetrics)"
    by blast+
  have "length (fst (convertToTimeSeries bulkEnv
      (FlushPeriod (config (outputs twoInstances 0)) < 1500)
      (outputs twoInstances 1) twoMetrics)) = 150001"
    by (simp add: twoInstances_def example_defs run_defs)
  with c(3) have "length (fst (convertOf bulkEnv 1 ?p1 twoMetrics)) = 150001"
    by simp
  moreover from c(2) have "outputs ?p1 1 = idleOutput"
    by (simp add: twoInstances_def)
  moreover have "length (fst (convertOf bulkEnv 1 twoInstances twoMetrics)) = 300002"
    by (simp add: convertOf_fst twoInstances_def example_defs run_defs)
  ultimately show ?thesis
    using h by (intro conjI exI [of _ ?p1]) simp_all
qed

text \<open>
  C6. When the loop reaches a sample of a metric name not yet seen and \<^verbatim>\<open>transform\<close>
  returns an error for it, the error is logged (after the label error, if there was one),
  the accumulated series are unchanged, the name is marked, and the loops go on with the
  rest of the container and the remaining containers.
\<close>

theorem transform_error_drops_sample:
  "\<not> seen st (Metric_Name (Sample_Metric s)) \<and>
   tagsToLabels env (Sample_Tags s) (config out) = (labels, lerr) \<and>
   transform env (mapping out) (conv_metrics st) s labels = (Inl e, ms') \<longrightarrow>
     convertSample env out st s =
       st\<lparr>seen := (seen st)(Metric_Name (Sample_Metric s) := True),
          conv_metrics := ms',
          conv_logger := conv_logger st @
            (case lerr of None \<Rightarrow> [] | Some le \<Rightarrow> [LogError le]) @ [LogError e]\<rparr> \<and>
     promTimeSeries (convertSample env out st s) = promTimeSeries st \<and>
     convertContainers env out tooLong st (SampleContainer (s # rest) # cs) =
       convertContainers env out tooLong
         (st\<lparr>seen := (seen st)(Metric_Name (Sample_Metric s) := True),
             conv_metrics := ms',
             conv_logger := conv_logger st @
               (case lerr of None \<Rightarrow> [] | Some le \<Rightarrow> [LogError le]) @ [LogError e]\<rparr>)
         (SampleContainer rest # cs)"
proof (intro impI)
  assume a: "\<not> seen st (Metric_Name (Sample_Metric s)) \<and>
   tagsToLabels env (Sample_Tags s) (config out) = (labels, lerr) \<and>
   transform env (mapping out) (conv_metrics st) s labels = (Inl e, ms')"
  then have eq: "convertSample env out st s =
       st\<lparr>seen := (seen st)(Metric_Name (Sample_Metric s) := True),
          conv_metrics := ms',
          conv_logger := conv_logger st @
            (case lerr of None \<Rightarrow> [] | Some le \<Rightarrow> [LogError le]) @ [LogError e]\<rparr>"
    using convertSample_transform_error [of st s env out labels lerr e ms'] by blast
  moreover from eq have "promTimeSeries (convertSample env out st s) = promTimeSeries st"
    by simp
  moreover have "convertContainers env out tooLong st (SampleContainer (s # rest) # cs) =
      convertContainers env out tooLong (convertSample env out st s) (SampleContainer rest # cs)"
    by (rule convertContainers_step)
  ultimately show "convertSample env out st s =
       st\<lparr>seen := (seen st)(Metric_Name (Sample_Metric s) := True),
          conv_metrics := ms',
          conv_logger := conv_logger st @
            (case lerr of None \<Rightarrow> [] | Some le \<Rightarrow> [LogError le]) @ [LogError e]\<rparr> \<and>
     promTimeSeries (convertSample env out st s) = promTimeSeries st \<and>
     convertContainers env out tooLong st (SampleContainer (s # rest) # cs) =
       convertContainers env out tooLong
         (st\<lparr>seen := (seen st)(Metric_Name (Sample_Metric s) := True),
             conv_metrics := ms',
             conv_logger := conv_logger st @
               (case lerr of None \<Rightarrow> [] | Some le \<Rightarrow> [LogError le]) @ [LogError e]\<rparr>)
         (SampleContainer rest # cs)"
    by simp
qed

theorem transform_error_drops_sample_witness:
  "convertToTimeSeries strictEnv False idleOutput mixedContainers =
     ([\<lparr>Labels = [\<lparr>Label_Name = ''method'', Label_Value = ''GET''\<rparr>],
        Samples = [\<lparr>Point_Value = 1, Point_Timestamp = 7\<rparr>]\<rparr>],
      idleOutput\<lparr>logger := [LogError ''cannot map a trend metric'']\<rparr>)"
proof -
  let ?s = "trendSample ''req_duration'' [] 7 12"
  let ?st = "conv_init idleOutput :: unit conv"
  have h: "\<not> seen ?st (Metric_Name (Sample_Metric ?s)) \<and>
     tagsToLabels strictEnv (Sample_Tags ?s) (config idleOutput) = ([], None) \<and>
     transform strictEnv (mapping idleOutput) (conv_metrics ?st) ?s [] =
       (Inl ''cannot map a trend metric'', ())"
    by (simp add: conv_init_def strictEnv_def strictTransform_def trendSample_def rawEnv_def
        plainLabels_def)
  from transform_error_drops_sample [where st = ?st and s = ?s and env = strictEnv
      and out = idleOutput and labels = "[]" and lerr = None
      and e = "''cannot map a trend metric''" and ms' = "()" and tooLong = False
      and rest = "[counterSample ''http_reqs'' [(''method'', ''GET'')] 7 1]" and cs = "[]"] h
  have "convertContainers strictEnv idleOutput False ?st
      (SampleContainer [?s, counterSample ''http_reqs'' [(''method'', ''GET'')] 7 1] # []) =
    convertContainers strictEnv idleOutput False
      (?st\<lparr>seen := (seen ?st)(Metric_Name (Sample_Metric ?s) := True),
           conv_metrics := (),
           conv_logger := conv_logger ?st @
             (case None of None \<Rightarrow> [] | Some le \<Rightarrow> [LogError le]) @
             [LogError ''cannot map a trend metric'']\<rparr>)
      (SampleContainer [counterSample ''http_reqs'' [(''method'', ''GET'')] 7 1] # [])"
    by blast
  then show ?thesis
    by (simp add: mixedContainers_def strictEnv_def strictTransform_def trendSample_def
        example_defs run_defs)
qed

text \<open>
  C7. When the loop reaches a sample of a metric name not yet seen and building its
  labels fails, the failure is logged, \<^verbatim>\<open>transform\<close> is called on the sample with no
  labels, its result is handled as for any sample, and the loops go on with the rest of
  the container and the remaining containers.
\<close>

theorem label_error_keeps_sample:
  "\<not> seen st (Metric_Name (Sample_Metric s)) \<and> labelConversionFails env out s e \<longrightarrow>
     convertSample env out st s =
       (case transform env (mapping out) (conv_metrics st) s [] of
          (Inl e', ms') \<Rightarrow>
            st\<lparr>seen := (seen st)(Metric_Name (Sample_Metric s) := True),
               conv_metrics := ms',
               conv_logger := conv_logger st @ [LogError e, LogError e']\<rparr>
        | (Inr newts, ms') \<Rightarrow>
            st\<lparr>promTimeSeries := promTimeSeries st @ newts,
               seen := (seen st)(Metric_Name (Sample_Metric s) := True),
               conv_metrics := ms',
               conv_logger := conv_logger st @ [LogError e]\<rparr>) \<and>
     convertContainers env out tooLong st (SampleContainer (s # rest) # cs) =
       convertContainers env out tooLong (convertSample env out st s)
         (SampleContainer rest # cs)"
  using convertSample_labels_error [of st s env out "[]" e]
    convertContainers_step [of env out tooLong st s rest cs]
  by (simp add: labelConversionFails_def)

theorem label_error_keeps_sample_witness:
  "convertToTimeSeries checkedEnv False idleOutput badTagContainers =
     ([\<lparr>Labels = [], Samples = [\<lparr>Point_Value = 1, Point_Timestamp = 7\<rparr>]\<rparr>,
       \<lparr>Labels = [\<lparr>Label_Name = ''scenario'', Label_Value = ''default''\<rparr>],
        Samples = [\<lparr>Point_Value = 5, Point_Timestamp = 7\<rparr>]\<rparr>],
      idleOutput\<lparr>logger := [LogError ''tag value cannot be represented'']\<rparr>)"
proof -
  let ?s = "counterSample ''http_reqs'' [(''method'', [])] 7 1"
  let ?st = "conv_init idleOutput :: unit conv"
  have h: "\<not> seen ?st (Metric_Name (Sample_Metric ?s)) \<and>
     labelConversionFails checkedEnv idleOutput ?s ''tag value cannot be represented''"
    by (simp add: conv_init_def labelConversionFails_def checkedEnv_def checkedLabels_def
        counterSample_def rawEnv_def)
  from label_error_keeps_sample [where st = ?st and s = ?s and env = checkedEnv
      and out = idleOutput and e = "''tag value cannot be represented''" and tooLong = False
      and rest = "[counterSample ''vus'' [(''scenario'', ''default'')] 7 5]" and cs = "[]"] h
  have step: "convertSample checkedEnv idleOutput ?st ?s =
       (case transform checkedEnv (mapping idleOutput) (conv_metrics ?st) ?s [] of
          (Inl e', ms') \<Rightarrow>
            ?st\<lparr>seen := (seen ?st)(Metric_Name (Sample_Metric ?s) := True),
               conv_metrics := ms',
               conv_logger := conv_logger ?st @
                 [LogError ''tag value cannot be represented'', LogError e']\<rparr>
        | (Inr newts, ms') \<Rightarrow>
            ?st\<lparr>promTimeSeries := promTimeSeries ?st @ newts,
               seen := (seen ?st)(Metric_Name (Sample_Metric ?s) := True),
               conv_metrics := ms',
               conv_logger := conv_logger ?st @
                 [LogError ''tag value cannot be represented'']\<rparr>)"
    and loop: "convertContainers checkedEnv idleOutput False ?st
        (SampleContainer [?s, counterSample ''vus'' [(''scenario'', ''default'')] 7 5] # []) =
      convertContainers checkedEnv idleOutput False (convertSample checkedEnv idleOutput ?st ?s)
        (SampleContainer [counterSample ''vus'' [(''scenario'', ''default'')] 7 5] # [])"
    by blast+
  have "convertToTimeSeries checkedEnv False idleOutput badTagContainers =
      conv_result idleOutput (convertContainers checkedEnv idleOutput False
        (convertSample checkedEnv idleOutput ?st ?s)
        (SampleContainer [counterSample ''vus'' [(''scenario'', ''default'')] 7 5] # []))"
    using loop by (simp add: convertToTimeSeries_def badTagContainers_def)
  then show ?thesis
    unfolding step
    by (simp add: checkedEnv_def checkedLabels_def example_defs run_defs)
qed

text \<open>
  C9. After the inner loop's step on a sample its metric name is marked as seen,
  whatever \<^verbatim>\<open>tagsToLabels\<close> and \<^verbatim>\<open>transform\<close> returned, and the loops go on as if the
  rest of the container and the remaining containers held no sample of that name. So
  when \<^verbatim>\<open>transform\<close> fails on the first sample of a call and every other sample of the
  call has the same metric name, the batch is empty.
\<close>

theorem failed_first_sample_hides_metric:
  "seen (convertSample env out st s) (Metric_Name (Sample_Metric s)) \<and>
   convertContainers env out tooLong st (SampleContainer (s # rest) # cs) =
     convertContainers env out tooLong (convertSample env out st s)
       (map (withoutMetric (Metric_Name (Sample_Metric s))) (SampleContainer rest # cs)) \<and>
   (transform env (mapping out) (metrics out) s
      (fst (tagsToLabels env (Sample_Tags s) (config out))) = (Inl e, ms') \<and>
    list_all (\<lambda>c. list_all (\<lambda>x. Metric_Name (Sample_Metric x) = Metric_Name (Sample_Metric s))
       (GetSamples c)) (SampleContainer rest # cs) \<longrightarrow>
      fst (convertToTimeSeries env tooLong out (SampleContainer (s # rest) # cs)) = [])"
proof -
  let ?n = "Metric_Name (Sample_Metric s)"
  have marked: "seen (convertSample env out st' s) ?n" for st'
    by (rule convertSample_marks)
  have hidden: "convertContainers env out tooLong st' (SampleContainer (s # rest) # cs) =
     convertContainers env out tooLong (convertSample env out st' s)
       (map (withoutMetric ?n) (SampleContainer rest # cs))" for st'
    using convertContainers_withoutMetric [where st = "convertSample env out st' s"
        and n = ?n and env = env and out = out and tooLong = tooLong
        and cs = "SampleContainer rest # cs", OF marked]
    by (simp only: convertContainers_step)
  have zero: "fst (convertToTimeSeries env tooLong out (SampleContainer (s # rest) # cs)) = []"
    if a: "transform env (mapping out) (metrics out) s
      (fst (tagsToLabels env (Sample_Tags s) (config out))) = (Inl e, ms') \<and>
    list_all (\<lambda>c. list_all (\<lambda>x. Metric_Name (Sample_Metric x) = ?n) (GetSamples c))
      (SampleContainer rest # cs)"
  proof -
    from a have "list_all (\<lambda>c. GetSamples c = [])
        (map (withoutMetric ?n) (SampleContainer rest # cs))"
      by (auto simp: list_all_iff withoutMetric_def filter_empty_conv)
    then have "convertContainers env out tooLong (conv_init out)
        (SampleContainer (s # rest) # cs) = convertSample env out (conv_init out) s"
      unfolding hidden by (rule convertContainers_no_samples)
    moreover have "promTimeSeries (convertSample env out (conv_init out) s) = []"
      using a convertSample_transform_error [of "conv_init out" s env out
          "fst (tagsToLabels env (Sample_Tags s) (config out))"
          "snd (tagsToLabels env (Sample_Tags s) (config out))" e ms']
      by (simp add: conv_init_def)
    ultimately show ?thesis
      by (simp add: convertToTimeSeries_def conv_result_def)
  qed
  from marked [of st] hidden [of st] zero show ?thesis by blast
qed

theorem failed_first_sample_hides_metric_witness:
  "fst (convertToTimeSeries strictEnv False idleOutput sameNameContainers) = [] \<and>
   fst (convertToTimeSeries strictEnv False idleOutput (tl sameNameContainers)) =
     [\<lparr>Labels = [], Samples = [\<lparr>Point_Value = 14, Point_Timestamp = 9\<rparr>]\<rparr>]"
proof -
  let ?s = "trendSample ''req_duration'' [] 7 12"
  have h: "transform strictEnv (mapping idleOutput) (metrics idleOutput) ?s
      (fst (tagsToLabels strictEnv (Sample_Tags ?s) (config idleOutput))) =
        (Inl ''cannot map a trend metric'', ()) \<and>
    list_all (\<lambda>c. list_all (\<lambda>x. Metric_Name (Sample_Metric x) = Metric_Name (Sample_Metric ?s))
       (GetSamples c))
      (SampleContainer [counterSample ''req_duration'' [] 8 13] #
       [SampleContainer [counterSample ''req_duration'' [] 9 14]])"
    by (simp add: strictEnv_def strictTransform_def trendSample_def counterSample_def)
  from failed_first_sample_hides_metric [where env = strictEnv and out = idleOutput
      and s = ?s and e = "''cannot map a trend metric''" and ms' = "()" and tooLong = False
      and rest = "[counterSample ''req_duration'' [] 8 13]"
      and cs = "[SampleContainer [counterSample ''req_duration'' [] 9 14]]"] h
  have "fst (convertToTimeSeries strictEnv False idleOutput
      (SampleContainer (?s # [counterSample ''req_duration'' [] 8 13]) #
       [SampleContainer [counterSample ''req_duration'' [] 9 14]])) = []"
    by blast
  then have "fst (convertToTimeSeries strictEnv False idleOutput sameNameContainers) = []"
    by (simp add: sameNameContainers_def)
  moreover have "fst (convertToTimeSeries strictEnv False idleOutput (tl sameNameContainers)) =
     [\<lparr>Labels = [], Samples = [\<lparr>Point_Value = 14, Point_Timestamp = 9\<rparr>]\<rparr>]"
    by (simp add: sameNameContainers_def strictEnv_def strictTransform_def trendSample_def
        example_defs run_defs)
  ultimately show ?thesis by simp
qed

text \<open>
  C2. Provided no series that \<^verbatim>\<open>transform\<close> emits holds two points of one timestamp,
  no series of the batch of a flush cycle, and of any call of \<^verbatim>\<open>convertToTimeSeries\<close>,
  holds two points of one timestamp, whatever the buffered containers are: also with
  many samples of one metric name and one timestamp. Under the raw variant every series
  of the batch has exactly one point, and the batch has at most as many series as the
  containers have metric names.
\<close>

theorem batch_timestamps_distinct:
  "(transformEmitsDistinct env \<longrightarrow>
      list_all timestampsDistinct (cycleBatch env tooLong out) \<and>
      list_all timestampsDistinct (fst (convertToTimeSeries env tooLong out cs))) \<and>
   (transform env = rawTransform \<longrightarrow>
      list_all (\<lambda>ts. length (Samples ts) = 1) (fst (convertToTimeSeries env tooLong out cs)) \<and>
      length (fst (convertToTimeSeries env tooLong out cs)) \<le>
        card (set (map (\<lambda>x. Metric_Name (Sample_Metric x)) (concat (map GetSamples cs)))))"
proof (intro conjI impI)
  assume c: "transformEmitsDistinct env"
  show "list_all timestampsDistinct (cycleBatch env tooLong out)"
    unfolding cycleBatch_def using c by (rule convertToTimeSeries_list_all)
  show "list_all timestampsDistinct (fst (convertToTimeSeries env tooLong out cs))"
    using c by (rule convertToTimeSeries_list_all)
next
  assume r: "transform env = rawTransform"
  from raw_batch [OF r, of tooLong out cs]
  show "list_all (\<lambda>ts. length (Samples ts) = 1) (fst (convertToTimeSeries env tooLong out cs))"
    and "length (fst (convertToTimeSeries env tooLong out cs)) \<le>
        card (set (map (\<lambda>x. Metric_Name (Sample_Metric x)) (concat (map GetSamples cs))))"
    by simp_all
qed

theorem batch_timestamps_distinct_witness:
  "transformEmitsDistinct rawEnv \<and> transform rawEnv = rawTransform \<and>
   list_all timestampsDistinct (cycleBatch rawEnv False busyOutput) \<and>
   list_all timestampsDistinct (fst (convertToTimeSeries rawEnv True idleOutput httpReqs)) \<and>
   length (fst (convertToTimeSeries rawEnv True idleOutput httpReqs)) \<le> 1 \<and>
   cycleBatch rawEnv False busyOutput =
     [\<lparr>Labels = [\<lparr>Label_Name = ''method'', Label_Value = ''GET''\<rparr>],
       Samples = [\<lparr>Point_Value = 1, Point_Timestamp = 7\<rparr>]\<rparr>]"
proof -
  have h: "transformEmitsDistinct rawEnv"
    using rawTransform_distinct [of rawEnv] by (simp add: rawEnv_def)
  have r: "transform rawEnv = rawTransform"
    by (simp add: rawEnv_def)
  have names: "card (set (map (\<lambda>x. Metric_Name (Sample_Metric x))
      (concat (map GetSamples httpReqs)))) = 1"
    by (simp add: httpReqs_def counterSample_def)
  have "cycleBatch rawEnv False busyOutput =
     [\<lparr>Labels = [\<lparr>Label_Name = ''method'', Label_Value = ''GET''\<rparr>],
       Samples = [\<lparr>Point_Value = 1, Point_Timestamp = 7\<rparr>]\<rparr>]"
    by (simp add: cycleBatch_def example_defs run_defs)
  with h r names
    batch_timestamps_distinct [where env = rawEnv and tooLong = False and out = busyOutput
      and cs = httpReqs]
    batch_timestamps_distinct [where env = rawEnv and tooLong = True and out = idleOutput
      and cs = httpReqs]
  show ?thesis by simp
qed

end
